theory Spec2Isabelle
  imports
    Complex_Main
    "HOL-Library.Sublist"
    "HOL-Library.List_Lexorder"
    "HOL-Library.Char_ord"
begin

section \<open>The semantic memory server of \<^verbatim>\<open>index.js\<close>\<close>

text \<open>
  The server keeps two SQLite tables, \<^verbatim>\<open>memories\<close> and \<^verbatim>\<open>user_bio\<close>, and answers
  tool calls (\<^verbatim>\<open>save_memory\<close>, \<^verbatim>\<open>search_memory\<close>, \<^verbatim>\<open>get_memory\<close>, \<^verbatim>\<open>set_user_bio\<close>,
  \<^verbatim>\<open>update_user_bio\<close>, ...) inside one \<^verbatim>\<open>try\<close>/\<^verbatim>\<open>catch\<close>. Each tool is embedded as a
  function from the call's arguments and the database to a response and the database
  after the call.

  Conventions of the embedding:
  \<^item> a JavaScript number the program computes with is a \<open>double\<close>: a finite value, an
    infinity or \<^verbatim>\<open>NaN\<close>, with every operation rounded to the nearest double; a number
    that is finite by what it is (a component of an embedding, the arguments \<open>n_results\<close>
    and \<open>threshold\<close>) is the \<^typ>\<open>real\<close> it stands for;
  \<^item> a value that may be \<^verbatim>\<open>undefined\<close> (an omitted argument or property) is an
    \<^typ>\<open>'a option\<close> with \<^term>\<open>None\<close> for \<^verbatim>\<open>undefined\<close>; a nullable TEXT column is a
    \<^typ>\<open>string option\<close> with \<^term>\<open>None\<close> for SQL NULL;
  \<^item> \<^verbatim>\<open>new Date().toISOString()\<close> is an argument \<open>now\<close> of every tool that reads
    the clock; ISO-8601 timestamps are compared as strings, character by character;
  \<^item> a table is the list of its rows in scan order (rowid order: \<^verbatim>\<open>INSERT\<close> appends,
    \<^verbatim>\<open>UPDATE\<close> changes rows in place);
  \<^item> the embedding column holds the JSON text of the vector and the metadata column the
    JSON text of the metadata; the model keeps the values \<^verbatim>\<open>JSON.parse\<close> reads back from
    that text (the vector itself, its components being finite; the metadata with
    \<^verbatim>\<open>null\<close> for every number that is not finite);
  \<^item> an exception caught by the handler's \<^verbatim>\<open>catch\<close> is the response \<open>Fault\<close> with the
    error's message, and leaves the database as it was.
\<close>

subsection \<open>Doubles\<close>

text \<open>
  An IEEE 754 binary64 number. The sign of zero is not modelled: \<open>+0\<close> and \<open>-0\<close> are
  both \<open>Finite 0\<close> (they are equal under \<^verbatim>\<open>===\<close> and \<^verbatim>\<open>>=\<close>, and the one divisor of
  the program, a product of square roots, is never \<open>-0\<close>).
\<close>

datatype double = Finite real | PInf | NInf | NaN

text \<open>Rounding to the nearest integer, a tie to the even one.\<close>

definition round_half_even :: "real \<Rightarrow> int" where
  "round_half_even q =
     (let f = \<lfloor>q\<rfloor>; d = q - of_int f
      in if d < 1 / 2 then f else if 1 / 2 < d then f + 1 else if even f then f else f + 1)"

text \<open>
  Rounding a real to the nearest number with a 53-bit significand, a tie to the even
  significand. Below the smallest normal number \<open>1 / 2 ^ 1022\<close> the doubles are the
  multiples of \<open>1 / 2 ^ 1074\<close>; from there on a number of magnitude between \<open>2 ^ k\<close>
  and \<open>2 ^ (k + 1)\<close> is rounded to a multiple of \<open>2 ^ (k - 52)\<close>.
\<close>

definition nearest :: "real \<Rightarrow> real" where
  "nearest x =
     (if \<bar>x\<bar> < 1 / 2 ^ 1022 then of_int (round_half_even (x * 2 ^ 1074)) / 2 ^ 1074
      else (let e = \<lfloor>log 2 \<bar>x\<bar>\<rfloor> - 52
            in of_int (round_half_even (x / 2 powr of_int e)) * 2 powr of_int e))"

text \<open>The double a real result is rounded to: an infinity when the rounded value overflows.\<close>

definition rnd :: "real \<Rightarrow> double" where
  "rnd x =
     (let y = nearest x
      in if 2 ^ 1024 \<le> y then PInf else if y \<le> - (2 ^ 1024) then NInf else Finite y)"

text \<open>
  What every result of \<open>rnd\<close> is: a value whose finite part is a multiple of
  \<open>1 / 2 ^ 1074\<close>, the spacing of the smallest doubles.
\<close>

definition on_grid :: "double \<Rightarrow> bool" where
  "on_grid x = (case x of Finite v \<Rightarrow> (\<exists>k::int. v = of_int k / 2 ^ 1074) | _ \<Rightarrow> True)"

text \<open>The operators \<^verbatim>\<open>+\<close>, \<^verbatim>\<open>-\<close>, \<^verbatim>\<open>*\<close>, \<^verbatim>\<open>/\<close>, \<^verbatim>\<open>Math.sqrt\<close> and \<^verbatim>\<open><=\<close> on doubles.\<close>

fun d_neg :: "double \<Rightarrow> double" where
  "d_neg (Finite a) = Finite (- a)"
| "d_neg PInf = NInf"
| "d_neg NInf = PInf"
| "d_neg NaN = NaN"

fun d_add :: "double \<Rightarrow> double \<Rightarrow> double" where
  "d_add (Finite a) (Finite b) = rnd (a + b)"
| "d_add NaN y = NaN"
| "d_add x NaN = NaN"
| "d_add PInf NInf = NaN"
| "d_add NInf PInf = NaN"
| "d_add PInf y = PInf"
| "d_add x PInf = PInf"
| "d_add NInf y = NInf"
| "d_add x NInf = NInf"

definition d_sub :: "double \<Rightarrow> double \<Rightarrow> double" where
  "d_sub x y = d_add x (d_neg y)"

fun d_mul :: "double \<Rightarrow> double \<Rightarrow> double" where
  "d_mul (Finite a) (Finite b) = rnd (a * b)"
| "d_mul NaN y = NaN"
| "d_mul x NaN = NaN"
| "d_mul (Finite a) PInf = (if a = 0 then NaN else if 0 < a then PInf else NInf)"
| "d_mul (Finite a) NInf = (if a = 0 then NaN else if 0 < a then NInf else PInf)"
| "d_mul PInf (Finite b) = (if b = 0 then NaN else if 0 < b then PInf else NInf)"
| "d_mul NInf (Finite b) = (if b = 0 then NaN else if 0 < b then NInf else PInf)"
| "d_mul PInf PInf = PInf"
| "d_mul PInf NInf = NInf"
| "d_mul NInf PInf = NInf"
| "d_mul NInf NInf = PInf"

text \<open>A zero divisor is \<open>+0\<close>.\<close>

fun d_div :: "double \<Rightarrow> double \<Rightarrow> double" where
  "d_div (Finite a) (Finite b) =
     (if b = 0 then (if a = 0 then NaN else if 0 < a then PInf else NInf) else rnd (a / b))"
| "d_div NaN y = NaN"
| "d_div x NaN = NaN"
| "d_div (Finite a) PInf = Finite 0"
| "d_div (Finite a) NInf = Finite 0"
| "d_div PInf (Finite b) = (if 0 \<le> b then PInf else NInf)"
| "d_div NInf (Finite b) = (if 0 \<le> b then NInf else PInf)"
| "d_div PInf PInf = NaN"
| "d_div PInf NInf = NaN"
| "d_div NInf PInf = NaN"
| "d_div NInf NInf = NaN"

fun d_sqrt :: "double \<Rightarrow> double" where
  "d_sqrt (Finite a) = (if a < 0 then NaN else rnd (sqrt a))"
| "d_sqrt PInf = PInf"
| "d_sqrt NInf = NaN"
| "d_sqrt NaN = NaN"

fun d_le :: "double \<Rightarrow> double \<Rightarrow> bool" where
  "d_le (Finite a) (Finite b) = (a \<le> b)"
| "d_le NaN y = False"
| "d_le x NaN = False"
| "d_le NInf y = True"
| "d_le x PInf = True"
| "d_le (Finite a) NInf = False"
| "d_le PInf (Finite b) = False"
| "d_le PInf NInf = False"

subsection \<open>JSON values and the runtime\<close>

text \<open>
  The values \<^verbatim>\<open>JSON.parse\<close> yields. A number is a double: finite, or an infinity when
  the literal is out of range (\<^verbatim>\<open>1e999\<close>).
\<close>

datatype json =
    JNull
  | JBool bool
  | JNum double
  | JStr string
  | JArr "json list"
  | JObj "(string \<times> json) list"

text \<open>
  \<^verbatim>\<open>JSON.parse(JSON.stringify(v))\<close>: \<^verbatim>\<open>JSON.stringify\<close> writes \<^verbatim>\<open>null\<close> for a number
  that is not finite.
\<close>

fun stored_json :: "json \<Rightarrow> json" where
  "stored_json (JNum (Finite r)) = JNum (Finite r)"
| "stored_json (JNum x) = JNull"
| "stored_json (JArr xs) = JArr (map stored_json xs)"
| "stored_json (JObj kvs) = JObj (map (map_prod id stored_json) kvs)"
| "stored_json v = v"

text \<open>\<^verbatim>\<open>Array.isArray(value)\<close>\<close>

fun isArray :: "json \<Rightarrow> bool" where
  "isArray (JArr _) = True"
| "isArray _ = False"

subsection \<open>The two tables\<close>

text \<open>
  \<^verbatim>\<open>
  CREATE TABLE memories (id TEXT PRIMARY KEY, text TEXT NOT NULL, embedding TEXT NOT NULL,
                         metadata TEXT, created_at TEXT NOT NULL, updated_at TEXT NOT NULL)
  CREATE TABLE user_bio (id INTEGER PRIMARY KEY CHECK (id = 1), nombre TEXT, ocupacion TEXT,
                         ubicacion TEXT, tecnologias TEXT, herramientas TEXT, idiomas TEXT,
                         timezone TEXT, mascotas TEXT,
                         created_at TEXT NOT NULL, updated_at TEXT NOT NULL)
  \<close>
\<close>

record memory =
  mem_id :: string
  mem_text :: string
  mem_embedding :: "real list"
  mem_metadata :: "json option"
  mem_created_at :: string
  mem_updated_at :: string

record user_bio =
  nombre :: "string option"
  ocupacion :: "string option"
  ubicacion :: "string option"
  tecnologias :: "string option"
  herramientas :: "string option"
  idiomas :: "string option"
  timezone :: "string option"
  mascotas :: "string option"
  bio_created_at :: string
  bio_updated_at :: string

record db =
  memories :: "memory list"
  bio :: "user_bio option"

text \<open>The \<^verbatim>\<open>PRIMARY KEY\<close> constraint of \<^verbatim>\<open>memories\<close>: no two rows share an id.\<close>

definition primary_key :: "db \<Rightarrow> bool" where
  "primary_key st = distinct (map mem_id (memories st))"

text \<open>
  What the server takes from outside the repository:
  \<^item> \<open>embedder\<close>: the feature-extraction pipeline behind \<^verbatim>\<open>generateEmbedding\<close>; \<open>Inl msg\<close>
    when it throws an error with message \<open>msg\<close>;
  \<^item> \<open>stringify\<close>: \<^verbatim>\<open>JSON.stringify\<close> on a JSON value;
  \<^item> \<open>bind_other\<close>: what the storage engine does with a bound parameter that is neither
    \<^verbatim>\<open>null\<close> nor a string (the text it stores in a TEXT column, or the error it throws);
  \<^item> \<open>run_update\<close>: the storage engine running
    \<^verbatim>\<open>UPDATE user_bio SET ${field} = ?, updated_at = ? WHERE id = 1\<close> with the field
    name spliced into the statement, on the parameters and the existing row.
\<close>

record runtime =
  embedder :: "string \<Rightarrow> string + real list"
  stringify :: "json \<Rightarrow> string"
  bind_other :: "json \<Rightarrow> string + string option"
  run_update :: "string \<Rightarrow> json option \<Rightarrow> string \<Rightarrow> user_bio \<Rightarrow> string + user_bio"

subsection \<open>Responses\<close>

text \<open>
  The objects a search result and \<^verbatim>\<open>get_memory\<close> return.
\<close>

record search_result =
  res_id :: string
  res_text :: string
  res_metadata :: json
  similarity :: double
  res_created_at :: string
  res_updated_at :: string

record memory_view =
  view_id :: string
  view_text :: string
  view_metadata :: json
  view_created_at :: string
  view_updated_at :: string

text \<open>
  The JSON object each branch of the handler serialises:
  \<^item> \<open>Saved message id\<close>: \<^verbatim>\<open>{success: true, message, id}\<close>;
  \<^item> \<open>Search_results query results message\<close>: \<^verbatim>\<open>{success: true, query, results}\<close>, with
    the \<^verbatim>\<open>message\<close> property when the store is empty;
  \<^item> \<open>Memory_found memory\<close>: \<^verbatim>\<open>{success: true, memory}\<close>;
  \<^item> \<open>Done message\<close>: \<^verbatim>\<open>{success: true, message}\<close>;
  \<^item> \<open>Failed message\<close>: \<^verbatim>\<open>{success: false, message}\<close>;
  \<^item> \<open>Fault message\<close>: the \<^verbatim>\<open>catch\<close> branch,
    \<^verbatim>\<open>{success: false, error: error.message}\<close> with \<^verbatim>\<open>isError: true\<close>.
\<close>

datatype response =
    Saved string string
  | Search_results string "search_result list" "string option"
  | Memory_found memory_view
  | Done string
  | Failed string
  | Fault string

fun success :: "response \<Rightarrow> bool" where
  "success (Saved _ _) = True"
| "success (Search_results _ _ _) = True"
| "success (Memory_found _) = True"
| "success (Done _) = True"
| "success (Failed _) = False"
| "success (Fault _) = False"

fun isError :: "response \<Rightarrow> bool" where
  "isError (Fault _) = True"
| "isError _ = False"

text \<open>The \<^verbatim>\<open>results\<close> property of a response (no results when it has none).\<close>

fun results :: "response \<Rightarrow> search_result list" where
  "results (Search_results _ rs _) = rs"
| "results _ = []"

subsection \<open>Cosine similarity\<close>

text \<open>
  \<open>b[i]\<close> past the end of \<open>b\<close> is \<^verbatim>\<open>undefined\<close>, which arithmetic turns into \<^verbatim>\<open>NaN\<close>.
\<close>

definition js_index :: "double list \<Rightarrow> nat \<Rightarrow> double" where
  "js_index b i = (if i < length b then b ! i else NaN)"

text \<open>\<^verbatim>\<open>a.reduce((sum, val, i) => sum + val * b[i], 0)\<close>\<close>

definition dot_product :: "double list \<Rightarrow> double list \<Rightarrow> double" where
  "dot_product a b =
     foldl (\<lambda>sum (val, i). d_add sum (d_mul val (js_index b i))) (Finite 0)
       (zip a [0 ..< length a])"

text \<open>\<^verbatim>\<open>a.reduce((sum, val) => sum + val * val, 0)\<close>\<close>

definition sum_of_squares :: "double list \<Rightarrow> double" where
  "sum_of_squares a = foldl (\<lambda>sum val. d_add sum (d_mul val val)) (Finite 0) a"

text \<open>
  \<^verbatim>\<open>
  function cosineSimilarity(a, b) {
    const dotProduct = a.reduce((sum, val, i) => sum + val * b[i], 0);
    const magA = Math.sqrt(a.reduce((sum, val) => sum + val * val, 0));
    const magB = Math.sqrt(b.reduce((sum, val) => sum + val * val, 0));
    return dotProduct / (magA * magB);
  }
  \<close>
\<close>

definition cosineSimilarity :: "double list \<Rightarrow> double list \<Rightarrow> double" where
  "cosineSimilarity a b =
     (let dotProduct = dot_product a b;
          magA = d_sqrt (sum_of_squares a);
          magB = d_sqrt (sum_of_squares b)
      in d_div dotProduct (d_mul magA magB))"

subsection \<open>\<^verbatim>\<open>save_memory\<close> and \<^verbatim>\<open>get_memory\<close>\<close>

definition generateEmbedding :: "runtime \<Rightarrow> string \<Rightarrow> string + real list" where
  "generateEmbedding rt txt = embedder rt txt"

text \<open>
  \<^verbatim>\<open>SELECT ... FROM memories WHERE id = ?\<close> with \<^verbatim>\<open>.get(id)\<close>: the first row with that id.
\<close>

definition select_by_id :: "string \<Rightarrow> db \<Rightarrow> memory option" where
  "select_by_id i st = find (\<lambda>m. mem_id m = i) (memories st)"

text \<open>
  \<^verbatim>\<open>UPDATE memories SET text = ?, embedding = ?, metadata = ?, updated_at = ? WHERE id = ?\<close>
\<close>

definition update_memory ::
  "string \<Rightarrow> real list \<Rightarrow> json \<Rightarrow> string \<Rightarrow> string \<Rightarrow> db \<Rightarrow> db" where
  "update_memory txt embedding metadata now i st =
     st\<lparr>memories :=
          map (\<lambda>m. if mem_id m = i
                   then m\<lparr>mem_text := txt, mem_embedding := embedding,
                          mem_metadata := Some metadata, mem_updated_at := now\<rparr>
                   else m)
            (memories st)\<rparr>"

text \<open>
  \<^verbatim>\<open>INSERT INTO memories (id, text, embedding, metadata, created_at, updated_at) VALUES ...\<close>
  (reached only when no row has the id, so the primary key never rejects it).
\<close>

definition insert_memory ::
  "string \<Rightarrow> string \<Rightarrow> real list \<Rightarrow> json \<Rightarrow> string \<Rightarrow> string \<Rightarrow> db \<Rightarrow> db" where
  "insert_memory i txt embedding metadata created updated st =
     st\<lparr>memories :=
          memories st @
            [\<lparr>mem_id = i, mem_text = txt, mem_embedding = embedding,
              mem_metadata = Some metadata, mem_created_at = created,
              mem_updated_at = updated\<rparr>]\<rparr>"

text \<open>
  \<^verbatim>\<open>save_memory\<close>: \<open>metadata\<close> defaults to \<^verbatim>\<open>{}\<close> when omitted; the embedding is computed
  first, then the row is looked up, then the clock is read.
\<close>

definition save_memory ::
  "runtime \<Rightarrow> string \<Rightarrow> string \<Rightarrow> string \<Rightarrow> json option \<Rightarrow> db \<Rightarrow> response \<times> db" where
  "save_memory rt now i txt metadata_arg st =
     (let metadata = stored_json (case metadata_arg of None \<Rightarrow> JObj [] | Some m \<Rightarrow> m) in
      case generateEmbedding rt txt of
        Inl msg \<Rightarrow> (Fault msg, st)
      | Inr embedding \<Rightarrow>
          (case select_by_id i st of
             Some existing \<Rightarrow>
               (Saved (''Memory updated with ID: '' @ i) i,
                update_memory txt embedding metadata now i st)
           | None \<Rightarrow>
               (Saved (''Memory saved with ID: '' @ i) i,
                insert_memory i txt embedding metadata now now st)))"

text \<open>\<^verbatim>\<open>JSON.parse(memory.metadata || "{}")\<close>\<close>

definition parse_metadata :: "json option \<Rightarrow> json" where
  "parse_metadata m = (case m of None \<Rightarrow> JObj [] | Some v \<Rightarrow> v)"

definition get_memory :: "string \<Rightarrow> db \<Rightarrow> response" where
  "get_memory i st =
     (case select_by_id i st of
        None \<Rightarrow> Failed (''Memory with ID '' @ i @ '' not found'')
      | Some memory \<Rightarrow>
          Memory_found
            \<lparr>view_id = mem_id memory, view_text = mem_text memory,
             view_metadata = parse_metadata (mem_metadata memory),
             view_created_at = mem_created_at memory,
             view_updated_at = mem_updated_at memory\<rparr>)"

subsection \<open>\<^verbatim>\<open>search_memory\<close>\<close>

text \<open>
  The object \<^verbatim>\<open>search_memory\<close> maps a row to. The components of an embedding are finite
  numbers.
\<close>

definition to_result :: "real list \<Rightarrow> memory \<Rightarrow> search_result" where
  "to_result queryEmbedding memory =
     \<lparr>res_id = mem_id memory, res_text = mem_text memory,
      res_metadata = parse_metadata (mem_metadata memory),
      similarity =
        cosineSimilarity (map Finite queryEmbedding) (map Finite (mem_embedding memory)),
      res_created_at = mem_created_at memory,
      res_updated_at = mem_updated_at memory\<rparr>"

text \<open>
  \<^verbatim>\<open>result.similarity >= threshold\<close>, the threshold a finite number: false when the
  similarity is \<^verbatim>\<open>NaN\<close>.
\<close>

definition js_ge :: "double \<Rightarrow> real \<Rightarrow> bool" where
  "js_ge x t = d_le (Finite t) x"

text \<open>
  \<^verbatim>\<open>.sort((a, b) => b.similarity - a.similarity)\<close>. \<^verbatim>\<open>Array.prototype.sort\<close> is stable
  and reads a \<^verbatim>\<open>NaN\<close> from the comparator as \<open>0\<close>; it is modelled as the stable
  insertion sort that puts \<open>x\<close> before the first \<open>y\<close> the comparator does not rank
  before \<open>x\<close>.
\<close>

definition by_similarity :: "search_result \<Rightarrow> search_result \<Rightarrow> double" where
  "by_similarity a b = d_sub (similarity b) (similarity a)"

definition sort_order :: "double \<Rightarrow> double" where
  "sort_order v = (if v = NaN then Finite 0 else v)"

fun insert_sorted :: "('a \<Rightarrow> 'a \<Rightarrow> double) \<Rightarrow> 'a \<Rightarrow> 'a list \<Rightarrow> 'a list" where
  "insert_sorted cmp x [] = [x]"
| "insert_sorted cmp x (y # ys) =
     (if d_le (sort_order (cmp x y)) (Finite 0) then x # y # ys
      else y # insert_sorted cmp x ys)"

definition js_sort :: "('a \<Rightarrow> 'a \<Rightarrow> double) \<Rightarrow> 'a list \<Rightarrow> 'a list" where
  "js_sort cmp xs = foldr (insert_sorted cmp) xs []"

text \<open>
  The scores the sort receives from \<^verbatim>\<open>search_memory\<close>: results of a division, none of
  them \<^verbatim>\<open>NaN\<close> once the threshold is applied.
\<close>

definition scored :: "search_result \<Rightarrow> bool" where
  "scored r = (similarity r \<noteq> NaN \<and> on_grid (similarity r))"

text \<open>
  \<^verbatim>\<open>.slice(0, end)\<close>: \<open>end\<close> is truncated towards zero; a negative \<open>end\<close> counts from
  the end of the array.
\<close>

definition ToIntegerOrInfinity :: "real \<Rightarrow> int" where
  "ToIntegerOrInfinity x = (if x < 0 then \<lceil>x\<rceil> else \<lfloor>x\<rfloor>)"

definition slice0 :: "'a list \<Rightarrow> real \<Rightarrow> 'a list" where
  "slice0 xs end_arg =
     (let len = int (length xs);
          relativeEnd = ToIntegerOrInfinity end_arg;
          final = (if relativeEnd < 0 then max (len + relativeEnd) 0 else min relativeEnd len)
      in take (nat final) xs)"

text \<open>
  \<^verbatim>\<open>search_memory\<close>: \<open>n_results\<close> defaults to 5 and \<open>threshold\<close> to 0.3, the double
  nearest to three tenths, when omitted.
\<close>

definition search_memory ::
  "runtime \<Rightarrow> string \<Rightarrow> real option \<Rightarrow> real option \<Rightarrow> db \<Rightarrow> response" where
  "search_memory rt query n_results_arg threshold_arg st =
     (let n_results = (case n_results_arg of None \<Rightarrow> 5 | Some n \<Rightarrow> n);
          threshold = (case threshold_arg of None \<Rightarrow> nearest (3 / 10) | Some t \<Rightarrow> t);
          allMemories = memories st
      in if length allMemories = 0
         then Search_results query [] (Some ''No memories stored yet'')
         else
           (case generateEmbedding rt query of
              Inl msg \<Rightarrow> Fault msg
            | Inr queryEmbedding \<Rightarrow>
                Search_results query
                  (slice0
                     (js_sort by_similarity
                        (filter (\<lambda>result. js_ge (similarity result) threshold)
                           (map (to_result queryEmbedding) allMemories)))
                     n_results)
                  None))"

subsection \<open>\<^verbatim>\<open>set_user_bio\<close> and \<^verbatim>\<open>update_user_bio\<close>\<close>

text \<open>
  \<^verbatim>\<open>existing?.nombre\<close>: \<^verbatim>\<open>undefined\<close> when there is no row, the column otherwise.
  Both \<^verbatim>\<open>undefined\<close> and NULL are \<^term>\<open>None\<close>: every use goes through \<^verbatim>\<open>|| null\<close>.
\<close>

definition optional_chain :: "user_bio option \<Rightarrow> (user_bio \<Rightarrow> string option) \<Rightarrow> string option" where
  "optional_chain existing col = (case existing of None \<Rightarrow> None | Some row \<Rightarrow> col row)"

text \<open>\<^verbatim>\<open>existingValue || null\<close>: the empty string is falsy, as \<^verbatim>\<open>null\<close> and \<^verbatim>\<open>undefined\<close> are.\<close>

definition or_null :: "string option \<Rightarrow> string option" where
  "or_null existingValue =
     (case existingValue of None \<Rightarrow> None | Some s \<Rightarrow> if s = [] then None else Some s)"

text \<open>
  \<^verbatim>\<open>
  const processValue = (value, existingValue) => {
    if (value === null || value === "null") return null;
    if (value === undefined) return existingValue || null;
    if (Array.isArray(value)) return JSON.stringify(value);
    return value;
  };
  \<close>
\<close>

definition processValue :: "runtime \<Rightarrow> json option \<Rightarrow> string option \<Rightarrow> json" where
  "processValue rt v existingValue =
     (if v = Some JNull \<or> v = Some (JStr ''null'') then JNull
      else case v of
             None \<Rightarrow> (case or_null existingValue of None \<Rightarrow> JNull | Some s \<Rightarrow> JStr s)
           | Some x \<Rightarrow> if isArray x then JStr (stringify rt x) else x)"

text \<open>
  The expression written out for each of the four array fields:
  \<^verbatim>\<open>
  bioFields.tecnologias === null || bioFields.tecnologias === "null" ? null :
  bioFields.tecnologias !== undefined ? JSON.stringify(bioFields.tecnologias) :
  (existing?.tecnologias || null)
  \<close>
  Its value is \<^verbatim>\<open>null\<close> or a string.
\<close>

definition arrayValue :: "runtime \<Rightarrow> json option \<Rightarrow> string option \<Rightarrow> string option" where
  "arrayValue rt v existingValue =
     (if v = Some JNull \<or> v = Some (JStr ''null'') then None
      else case v of
             Some x \<Rightarrow> Some (stringify rt x)
           | None \<Rightarrow> or_null existingValue)"

text \<open>
  Binding a parameter of \<^verbatim>\<open>stmt.run\<close> to a TEXT column: \<^verbatim>\<open>null\<close> is stored as NULL and a
  string as itself; any other value is the storage engine's business.
\<close>

definition bind_text :: "runtime \<Rightarrow> json \<Rightarrow> string + string option" where
  "bind_text rt v =
     (case v of JNull \<Rightarrow> Inr None | JStr s \<Rightarrow> Inr (Some s) | _ \<Rightarrow> bind_other rt v)"

text \<open>
  \<^verbatim>\<open>set_user_bio\<close>: \<open>bioFields\<close> is the arguments object, a map from property names to
  values. The four scalar fields go through \<^verbatim>\<open>processValue\<close>, the four array fields
  through the expression above; then the row is updated (\<^verbatim>\<open>created_at\<close> untouched) or
  inserted. A parameter the engine refuses to bind throws before anything is written.
\<close>

definition set_user_bio ::
  "runtime \<Rightarrow> string \<Rightarrow> (string \<rightharpoonup> json) \<Rightarrow> db \<Rightarrow> response \<times> db" where
  "set_user_bio rt now bioFields st =
     (let existing = bio st;
          nombre_v = processValue rt (bioFields ''nombre'') (optional_chain existing nombre);
          ocupacion_v = processValue rt (bioFields ''ocupacion'') (optional_chain existing ocupacion);
          ubicacion_v = processValue rt (bioFields ''ubicacion'') (optional_chain existing ubicacion);
          timezone_v = processValue rt (bioFields ''timezone'') (optional_chain existing timezone);
          tecnologias_v = arrayValue rt (bioFields ''tecnologias'') (optional_chain existing tecnologias);
          herramientas_v = arrayValue rt (bioFields ''herramientas'') (optional_chain existing herramientas);
          idiomas_v = arrayValue rt (bioFields ''idiomas'') (optional_chain existing idiomas);
          mascotas_v = arrayValue rt (bioFields ''mascotas'') (optional_chain existing mascotas)
      in case bind_text rt nombre_v of
           Inl msg \<Rightarrow> (Fault msg, st)
         | Inr nombre_b \<Rightarrow>
        (case bind_text rt ocupacion_v of
           Inl msg \<Rightarrow> (Fault msg, st)
         | Inr ocupacion_b \<Rightarrow>
        (case bind_text rt ubicacion_v of
           Inl msg \<Rightarrow> (Fault msg, st)
         | Inr ubicacion_b \<Rightarrow>
        (case bind_text rt timezone_v of
           Inl msg \<Rightarrow> (Fault msg, st)
         | Inr timezone_b \<Rightarrow>
        (case existing of
           Some row \<Rightarrow>
             (Done ''User biography updated'',
              st\<lparr>bio := Some (row\<lparr>nombre := nombre_b, ocupacion := ocupacion_b,
                                   ubicacion := ubicacion_b, tecnologias := tecnologias_v,
                                   herramientas := herramientas_v, idiomas := idiomas_v,
                                   timezone := timezone_b, mascotas := mascotas_v,
                                   bio_updated_at := now\<rparr>)\<rparr>)
         | None \<Rightarrow>
             (Done ''User biography created'',
              st\<lparr>bio := Some \<lparr>nombre = nombre_b, ocupacion = ocupacion_b,
                               ubicacion = ubicacion_b, tecnologias = tecnologias_v,
                               herramientas = herramientas_v, idiomas = idiomas_v,
                               timezone = timezone_b, mascotas = mascotas_v,
                               bio_created_at = now, bio_updated_at = now\<rparr>\<rparr>))))))"

text \<open>
  \<^verbatim>\<open>update_user_bio\<close>: the check for an existing row comes first; the value of an array
  field is stringified (\<^verbatim>\<open>JSON.stringify(undefined)\<close> is \<^verbatim>\<open>undefined\<close>); the statement is
  built from the field name and run by the engine.
\<close>

definition update_user_bio ::
  "runtime \<Rightarrow> string \<Rightarrow> string \<Rightarrow> json option \<Rightarrow> db \<Rightarrow> response \<times> db" where
  "update_user_bio rt now field val st =
     (case bio st of
        None \<Rightarrow>
          (Failed ''No user biography exists. Use set_user_bio to create one first.'', st)
      | Some existing \<Rightarrow>
          (let processedValue =
                 (if field \<in> set [''tecnologias'', ''herramientas'', ''idiomas'', ''mascotas'']
                  then map_option (\<lambda>v. JStr (stringify rt v)) val
                  else val)
           in case run_update rt field processedValue now existing of
                Inl msg \<Rightarrow> (Fault msg, st)
              | Inr row \<Rightarrow> (Done (''Updated field: '' @ field), st\<lparr>bio := Some row\<rparr>)))"

text \<open>
  The eight fields of the biography by name: the four scalar ones, the four array ones,
  and the column of a row that holds each.
\<close>

definition scalar_fields :: "string list" where
  "scalar_fields = [''nombre'', ''ocupacion'', ''ubicacion'', ''timezone'']"

definition array_fields :: "string list" where
  "array_fields = [''tecnologias'', ''herramientas'', ''idiomas'', ''mascotas'']"

definition bio_fields :: "string list" where
  "bio_fields = scalar_fields @ array_fields"

definition column :: "string \<Rightarrow> user_bio \<Rightarrow> string option" where
  "column f row =
     (if f = ''nombre'' then nombre row
      else if f = ''ocupacion'' then ocupacion row
      else if f = ''ubicacion'' then ubicacion row
      else if f = ''timezone'' then timezone row
      else if f = ''tecnologias'' then tecnologias row
      else if f = ''herramientas'' then herramientas row
      else if f = ''idiomas'' then idiomas row
      else if f = ''mascotas'' then mascotas row
      else None)"

text \<open>The column of the stored biography, \<^term>\<open>None\<close> also when there is no row.\<close>

definition stored :: "string \<Rightarrow> db \<Rightarrow> string option" where
  "stored f st = optional_chain (bio st) (column f)"

subsection \<open>Notions of the specification\<close>

text \<open>
  A result list is ranked when no score is \<^verbatim>\<open>NaN\<close> and no result has a lower score
  than a later one.
\<close>

definition score_ge :: "search_result \<Rightarrow> search_result \<Rightarrow> bool" where
  "score_ge a b = d_le (similarity b) (similarity a)"

definition ranked :: "search_result list \<Rightarrow> bool" where
  "ranked rs = (sorted_wrt score_ge rs \<and> list_all (\<lambda>r. similarity r \<noteq> NaN) rs)"

text \<open>
  The tie-break the specification recommends: of two results with the same score, the
  one updated later comes first.
\<close>

definition ties_by_updated_at_desc :: "search_result list \<Rightarrow> bool" where
  "ties_by_updated_at_desc rs =
     sorted_wrt (\<lambda>a b. similarity a = similarity b \<longrightarrow> res_updated_at b \<le> res_updated_at a) rs"

text \<open>
  The validation the specification asks of \<^verbatim>\<open>search_memory\<close>: a call answers as the call
  with \<open>n_results\<close> clamped to at least 1 and \<open>threshold\<close> clamped into \<open>[0, 1]\<close> does, or
  it is rejected.
\<close>

definition clamps_or_rejects :: "runtime \<Rightarrow> string \<Rightarrow> real \<Rightarrow> real \<Rightarrow> db \<Rightarrow> bool" where
  "clamps_or_rejects rt query n_results threshold st =
     (search_memory rt query (Some n_results) (Some threshold) st =
        search_memory rt query (Some (max 1 n_results)) (Some (min 1 (max 0 threshold))) st
      \<or> \<not> success (search_memory rt query (Some n_results) (Some threshold) st))"

text \<open>
  A value the engine binds whatever it is: a field omitted, \<^verbatim>\<open>null\<close>, a string, or an
  array (which \<^verbatim>\<open>processValue\<close> turns into a string).
\<close>

definition text_or_null :: "json option \<Rightarrow> bool" where
  "text_or_null v =
     (case v of
        None \<Rightarrow> True
      | Some JNull \<Rightarrow> True
      | Some (JStr s) \<Rightarrow> True
      | Some (JArr xs) \<Rightarrow> True
      | Some other \<Rightarrow> False)"

subsection \<open>A runtime and a database to run the tools on\<close>

text \<open>
  A stand-in embedder with two-dimensional unit vectors; a stand-in \<^verbatim>\<open>JSON.stringify\<close>
  that writes strings without escapes, arrays, \<^verbatim>\<open>null\<close> for a number that is not finite
  and the integer part of a finite one; and an engine that stores \<^verbatim>\<open>null\<close> and strings
  in the eight columns of the biography and refuses every other parameter and column.
\<close>

definition demo_embedder :: "string \<Rightarrow> string + real list" where
  "demo_embedder txt =
     (if txt = [] then Inl ''empty input''
      else if txt = ''dog'' then Inr [0, 1]
      else if txt = ''anti-cat'' then Inr [- 1, 0]
      else Inr [1, 0])"

fun join_commas :: "string list \<Rightarrow> string" where
  "join_commas [] = []"
| "join_commas [x] = x"
| "join_commas (x # y # ys) = x @ '','' @ join_commas (y # ys)"

fun decimal :: "nat \<Rightarrow> string" where
  "decimal n =
     (if n < 10 then [char_of (48 + n)] else decimal (n div 10) @ [char_of (48 + n mod 10)])"

fun demo_stringify :: "json \<Rightarrow> string" where
  "demo_stringify JNull = ''null''"
| "demo_stringify (JBool b) = (if b then ''true'' else ''false'')"
| "demo_stringify (JNum (Finite r)) = (if r < 0 then ''-'' else []) @ decimal (nat \<lfloor>\<bar>r\<bar>\<rfloor>)"
| "demo_stringify (JNum n) = ''null''"
| "demo_stringify (JStr s) = CHR 0x22 # s @ [CHR 0x22]"
| "demo_stringify (JArr xs) = ''['' @ join_commas (map demo_stringify xs) @ '']''"
| "demo_stringify (JObj kvs) = ''{}''"

definition set_column :: "string \<Rightarrow> string option \<Rightarrow> user_bio \<Rightarrow> user_bio" where
  "set_column f v row =
     (if f = ''nombre'' then row\<lparr>nombre := v\<rparr>
      else if f = ''ocupacion'' then row\<lparr>ocupacion := v\<rparr>
      else if f = ''ubicacion'' then row\<lparr>ubicacion := v\<rparr>
      else if f = ''timezone'' then row\<lparr>timezone := v\<rparr>
      else if f = ''tecnologias'' then row\<lparr>tecnologias := v\<rparr>
      else if f = ''herramientas'' then row\<lparr>herramientas := v\<rparr>
      else if f = ''idiomas'' then row\<lparr>idiomas := v\<rparr>
      else if f = ''mascotas'' then row\<lparr>mascotas := v\<rparr>
      else row)"

definition demo_run_update ::
  "string \<Rightarrow> json option \<Rightarrow> string \<Rightarrow> user_bio \<Rightarrow> string + user_bio" where
  "demo_run_update field v now row =
     (if field \<in> set bio_fields
      then (case v of
              Some JNull \<Rightarrow> Inr ((set_column field None row)\<lparr>bio_updated_at := now\<rparr>)
            | Some (JStr s) \<Rightarrow> Inr ((set_column field (Some s) row)\<lparr>bio_updated_at := now\<rparr>)
            | _ \<Rightarrow> Inl ''SQLite3 can only bind numbers, strings, bigints, buffers, and null'')
      else Inl (''no such column: '' @ field))"

definition demo_rt :: runtime where
  "demo_rt =
     \<lparr>embedder = demo_embedder,
      stringify = demo_stringify,
      bind_other = (\<lambda>v. Inl ''SQLite3 can only bind numbers, strings, bigints, buffers, and null''),
      run_update = demo_run_update\<rparr>"

definition empty_db :: db where
  "empty_db = \<lparr>memories = [], bio = None\<rparr>"

text \<open>
  Three memories saved one after the other into the empty database: \<open>a\<close> and \<open>b\<close>
  with the same text, \<open>c\<close> with the opposite embedding.
\<close>

definition demo_db :: db where
  "demo_db =
     snd (save_memory demo_rt ''2024-10-28T10:00:03.000Z'' ''c'' ''anti-cat'' None
       (snd (save_memory demo_rt ''2024-10-28T10:00:02.000Z'' ''b'' ''cat'' None
         (snd (save_memory demo_rt ''2024-10-28T10:00:01.000Z'' ''a'' ''cat'' None empty_db)))))"

text \<open>
  A biography with a name, an occupation and a list of languages, and the same after
  \<^verbatim>\<open>update_user_bio("timezone", "null")\<close>.
\<close>

definition demo_bio_db :: db where
  "demo_bio_db =
     snd (set_user_bio demo_rt ''2024-10-28T10:00:01.000Z''
            [''nombre'' \<mapsto> JStr ''Ana'', ''ocupacion'' \<mapsto> JStr ''dev'',
             ''idiomas'' \<mapsto> JArr [JStr ''es'']]
            empty_db)"

definition demo_bio_null_db :: db where
  "demo_bio_null_db =
     snd (update_user_bio demo_rt ''2024-10-28T10:00:02.000Z'' ''timezone'' (Some (JStr ''null''))
            demo_bio_db)"

section \<open>Properties\<close>

subsection \<open>Rounding\<close>

text \<open>
  The rounding error is at most half a unit in the last place; rounding keeps the sign,
  keeps a double, and turns what is below half the smallest double into zero.
\<close>

lemma round_half_even_error: "\<bar>of_int (round_half_even q) - q\<bar> \<le> 1 / 2"
  unfolding round_half_even_def Let_def by (auto; linarith)

lemma round_half_even_of_int [simp]: "round_half_even (of_int n) = n"
  by (simp add: round_half_even_def)

lemma round_half_even_nonpos: "q \<le> 0 \<Longrightarrow> round_half_even q \<le> 0"
  unfolding round_half_even_def Let_def by (auto; linarith)

lemma round_half_even_nonneg: "0 \<le> q \<Longrightarrow> 0 \<le> round_half_even q"
  unfolding round_half_even_def Let_def by (auto; linarith)

lemma round_half_even_pos: "1 \<le> q \<Longrightarrow> 1 \<le> round_half_even q"
  unfolding round_half_even_def Let_def by (auto; linarith)

lemma round_half_even_small: "\<bar>q\<bar> < 1 / 2 \<Longrightarrow> round_half_even q = 0"
  unfolding round_half_even_def Let_def by (auto; linarith)

lemma nearest_zero [simp]: "nearest 0 = 0"
  using round_half_even_of_int [of 0] by (simp add: nearest_def)

lemma normal_floor_log:
  assumes "1 / 2 ^ 1022 \<le> \<bar>x\<bar>"
  shows "- 1022 \<le> \<lfloor>log 2 \<bar>x\<bar>\<rfloor>" and "2 powr of_int \<lfloor>log 2 \<bar>x\<bar>\<rfloor> \<le> \<bar>x\<bar>"
proof -
  have "0 < (1::real) / 2 ^ 1022" by simp
  with assms have pos: "0 < \<bar>x\<bar>" by linarith
  have "(2::real) powr (- 1022) = 1 / 2 ^ 1022"
    by (simp add: powr_minus_divide powr_numeral del: power_numeral)
  hence "2 powr (- 1022) \<le> \<bar>x\<bar>" using assms by simp
  hence "- 1022 \<le> log 2 \<bar>x\<bar>" using pos by (simp add: le_log_iff)
  thus "- 1022 \<le> \<lfloor>log 2 \<bar>x\<bar>\<rfloor>" by (simp add: le_floor_iff)
  have "of_int \<lfloor>log 2 \<bar>x\<bar>\<rfloor> \<le> log 2 \<bar>x\<bar>" by simp
  thus "2 powr of_int \<lfloor>log 2 \<bar>x\<bar>\<rfloor> \<le> \<bar>x\<bar>" using pos by (simp add: le_log_iff del: of_int_floor_le)
qed


lemma nearest_error:
  assumes "1 / 2 ^ 1022 \<le> \<bar>x\<bar>"
  shows "\<bar>nearest x - x\<bar> \<le> \<bar>x\<bar> / 2 ^ 53"
proof -
  let ?k = "\<lfloor>log 2 \<bar>x\<bar>\<rfloor>"
  let ?p = "(2::real) powr of_int (?k - 52)"
  have p: "0 < ?p" by simp
  have n: "nearest x = of_int (round_half_even (x / ?p)) * ?p"
    using assms by (simp add: nearest_def Let_def)
  have "nearest x - x = (of_int (round_half_even (x / ?p)) - x / ?p) * ?p"
    using p by (simp add: n field_simps)
  then have "\<bar>nearest x - x\<bar> = \<bar>of_int (round_half_even (x / ?p)) - x / ?p\<bar> * ?p"
    using p by (simp add: abs_mult)
  also have "\<dots> \<le> (1 / 2) * ?p"
    using round_half_even_error [of "x / ?p"] p by (intro mult_right_mono) simp_all
  also have "?p = 2 powr of_int ?k / 2 ^ 52"
    by (simp add: powr_diff powr_numeral del: power_numeral)
  also have "(1 / 2) * ((2::real) powr of_int ?k / 2 ^ 52) = 2 powr of_int ?k / 2 ^ 53"
    by simp
  also have "\<dots> \<le> \<bar>x\<bar> / 2 ^ 53"
    using normal_floor_log(2) [OF assms] by (intro divide_right_mono) simp_all
  finally show ?thesis .
qed

lemma nearest_nonpos: "x \<le> 0 \<Longrightarrow> nearest x \<le> 0"
proof -
  assume x: "x \<le> 0"
  have "of_int (round_half_even (x * c)) * d \<le> (0::real)" if "0 < c" "0 < d" for c d :: real
  proof -
    have "x * c \<le> 0" using x that by (simp add: mult_le_0_iff)
    then have "round_half_even (x * c) \<le> 0" by (rule round_half_even_nonpos)
    then show ?thesis using that by (simp add: mult_le_0_iff)
  qed
  from this [of "2 ^ 1074" "1 / 2 ^ 1074"] this [of "1 / 2 powr of_int (\<lfloor>log 2 \<bar>x\<bar>\<rfloor> - 52)" "2 powr of_int (\<lfloor>log 2 \<bar>x\<bar>\<rfloor> - 52)"]
  show ?thesis by (simp add: nearest_def Let_def)
qed

lemma nearest_pos:
  assumes "1 / 2 ^ 1074 \<le> x"
  shows "0 < nearest x"
proof (cases "\<bar>x\<bar> < 1 / 2 ^ 1022")
  case True
  have "1 \<le> x * 2 ^ 1074" using assms by (simp add: field_simps)
  then have "1 \<le> round_half_even (x * 2 ^ 1074)" by (rule round_half_even_pos)
  then show ?thesis using True by (simp add: nearest_def)
next
  case False
  then have n: "1 / 2 ^ 1022 \<le> \<bar>x\<bar>" by simp
  have "0 < (1::real) / 2 ^ 1074" by simp
  with assms have xpos: "0 < x" by linarith
  let ?k = "\<lfloor>log 2 \<bar>x\<bar>\<rfloor>"
  let ?p = "(2::real) powr of_int (?k - 52)"
  have "?p \<le> 2 powr of_int ?k" by (simp add: powr_diff powr_numeral del: power_numeral) (simp add: field_simps)
  also have "\<dots> \<le> x" using normal_floor_log(2) [OF n] xpos by simp
  finally have "1 \<le> x / ?p" by (simp add: field_simps)
  then have "1 \<le> round_half_even (x / ?p)" by (rule round_half_even_pos)
  then have "0 < of_int (round_half_even (x / ?p)) * ?p" by simp
  then show ?thesis using False by (simp add: nearest_def Let_def)
qed

lemma nearest_grid: "\<exists>k::int. nearest x = of_int k / 2 ^ 1074"
proof (cases "\<bar>x\<bar> < 1 / 2 ^ 1022")
  case True
  then show ?thesis by (auto simp: nearest_def)
next
  case False
  then have n: "1 / 2 ^ 1022 \<le> \<bar>x\<bar>" by simp
  let ?e = "\<lfloor>log 2 \<bar>x\<bar>\<rfloor> - 52"
  have "0 \<le> ?e + 1074" using normal_floor_log(1) [OF n] by linarith
  then obtain j :: nat where j: "?e + 1074 = int j" using nonneg_int_cases by blast
  have "(2::real) powr of_int ?e = 2 powr (of_int (?e + 1074) - 1074)" by simp
  also have "\<dots> = 2 powr of_int (?e + 1074) / 2 ^ 1074"
    by (simp only: powr_diff) (simp add: powr_numeral del: power_numeral)
  also have "(2::real) powr of_int (?e + 1074) = 2 ^ j"
    unfolding j by (simp add: powr_realpow)
  finally have "nearest x = of_int (round_half_even (x / 2 powr of_int ?e) * 2 ^ j) / 2 ^ 1074"
    using False by (simp add: nearest_def Let_def)
  then show ?thesis by blast
qed

lemma nearest_underflow: "\<bar>x\<bar> \<le> 1 / 2 ^ 1076 \<Longrightarrow> nearest x = 0"
proof -
  assume a: "\<bar>x\<bar> \<le> 1 / 2 ^ 1076"
  have "(1::real) / 2 ^ 1076 < 1 / 2 ^ 1022" by simp
  with a have small: "\<bar>x\<bar> < 1 / 2 ^ 1022" by linarith
  have "\<bar>x * 2 ^ 1074\<bar> = \<bar>x\<bar> * 2 ^ 1074" by (simp add: abs_mult)
  also have "\<dots> \<le> (1 / 2 ^ 1076) * 2 ^ 1074" using a by (intro mult_right_mono) simp_all
  also have "\<dots> < 1 / 2" by simp
  finally have "round_half_even (x * 2 ^ 1074) = 0" by (rule round_half_even_small)
  with small show ?thesis by (simp add: nearest_def)
qed

lemma round_half_even_power2 [simp]: "round_half_even (2 ^ n) = 2 ^ n"
  using round_half_even_of_int [of "2 ^ n"] by simp

lemma nearest_one [simp]: "nearest 1 = 1"
proof -
  have "\<not> \<bar>1::real\<bar> < 1 / 2 ^ 1022" by simp
  moreover have "(2::real) powr of_int (\<lfloor>log 2 \<bar>1\<bar>\<rfloor> - 52) = 1 / 2 ^ 52"
    by (simp add: powr_minus_divide powr_numeral del: power_numeral)
  ultimately show ?thesis
    by (simp add: nearest_def Let_def del: power_numeral)
qed


lemma round_half_even_minus_power2 [simp]: "round_half_even (- (2 ^ n)) = - (2 ^ n)"
  using round_half_even_of_int [of "- (2 ^ n)"] by simp

lemma nearest_minus_one [simp]: "nearest (- 1) = - 1"
proof -
  have "\<not> \<bar>- 1::real\<bar> < 1 / 2 ^ 1022" by simp
  moreover have "(2::real) powr of_int (\<lfloor>log 2 \<bar>- 1\<bar>\<rfloor> - 52) = 1 / 2 ^ 52"
    by (simp add: powr_minus_divide powr_numeral del: power_numeral)
  ultimately show ?thesis
    by (simp add: nearest_def Let_def del: power_numeral)
qed

lemma rnd_simps [simp]: "rnd 0 = Finite 0" "rnd 1 = Finite 1" "rnd (- 1) = Finite (- 1)"
  by (simp_all add: rnd_def)

lemma default_threshold: "0 < nearest (3 / 10)" "nearest (3 / 10) < 1"
proof -
  have "\<bar>nearest (3 / 10) - 3 / 10\<bar> \<le> \<bar>3 / 10\<bar> / 2 ^ 53"
    by (rule nearest_error) simp
  then have "\<bar>nearest (3 / 10) - 3 / 10\<bar> \<le> 1 / 10" by simp
  then show "0 < nearest (3 / 10)" "nearest (3 / 10) < 1" by linarith+
qed

lemma d_mul_commute: "d_mul x y = d_mul y x"
  by (cases x; cases y) (simp_all add: mult.commute)

lemma on_grid_rnd: "on_grid (rnd x)"
  using nearest_grid [of x] by (simp add: on_grid_def rnd_def Let_def)

lemma on_grid_d_div: "on_grid (d_div x y)"
proof (cases x; cases y)
  fix a b assume "x = Finite a" "y = Finite b"
  then show ?thesis using on_grid_rnd [of "a / b"] by (simp add: on_grid_def)
qed (simp_all add: on_grid_def)

lemma rnd_sign:
  "x \<le> 0 \<Longrightarrow> d_le (rnd x) (Finite 0)"
  "1 / 2 ^ 1074 \<le> x \<Longrightarrow> \<not> d_le (rnd x) (Finite 0)"
  using nearest_nonpos [of x] nearest_pos [of x]
  by (auto simp: rnd_def Let_def)

lemma rnd_not_NaN [simp]: "rnd x \<noteq> NaN"
  by (simp add: rnd_def Let_def)

text \<open>
  The comparator of the sort on two scores that are doubles, none of them \<^verbatim>\<open>NaN\<close>:
  the difference is not positive exactly when the first is at most the second.
\<close>

lemma comparator_sign:
  assumes "on_grid x" "on_grid y" "x \<noteq> NaN" "y \<noteq> NaN"
  shows "d_le (sort_order (d_sub y x)) (Finite 0) \<longleftrightarrow> d_le y x"
proof (cases x; cases y)
  fix a b assume xy: "x = Finite a" "y = Finite b"
  from assms(1,2) xy obtain j k :: int where
    a: "a = of_int j / 2 ^ 1074" and b: "b = of_int k / 2 ^ 1074"
    by (auto simp: on_grid_def)
  show ?thesis
  proof (cases "b \<le> a")
    case True
    then show ?thesis using xy rnd_sign(1) [of "b - a"] by (simp add: d_sub_def sort_order_def)
  next
    case False
    then have "j < k" using a b by (simp add: divide_less_cancel)
    then have "1 \<le> real_of_int (k - j)" by simp
    then have "1 / 2 ^ 1074 \<le> b - a" unfolding a b by (simp add: field_simps)
    then show ?thesis using False xy rnd_sign(2) [of "b - a"] by (simp add: d_sub_def sort_order_def)
  qed
qed (use assms in \<open>simp_all add: d_sub_def sort_order_def\<close>)

subsection \<open>Cosine similarity\<close>

lemma dot_zip:
  "length a \<le> length b \<Longrightarrow>
     dot_product a b = foldl (\<lambda>sum (x, y). d_add sum (d_mul x y)) (Finite 0) (zip a (take (length a) b))"
proof (induction a rule: rev_induct)
  case Nil
  then show ?case by (simp add: dot_product_def)
next
  case (snoc x xs)
  then have n: "length xs < length b" by simp
  then have "take (Suc (length xs)) b = take (length xs) b @ [b ! length xs]"
    by (rule take_Suc_conv_app_nth)
  with snoc n show ?case
    by (simp add: dot_product_def js_index_def)
qed

lemma dot_commute:
  assumes "length a = length b"
  shows "dot_product a b = dot_product b a"
proof -
  have "foldl (\<lambda>sum (x, y). d_add sum (d_mul x y)) s (zip a b) =
        foldl (\<lambda>sum (x, y). d_add sum (d_mul x y)) s (zip b a)" for s
    using assms
  proof (induction a b arbitrary: s rule: list_induct2)
    case Nil
    then show ?case by simp
  next
    case (Cons x xs y ys)
    then show ?case by (simp add: d_mul_commute [of x y])
  qed
  then show ?thesis using assms by (simp add: dot_zip)
qed

lemma dot_self: "dot_product a a = sum_of_squares a"
proof -
  have "foldl (\<lambda>sum (x, y). d_add sum (d_mul x y)) s (zip a a) =
        foldl (\<lambda>sum val. d_add sum (d_mul val val)) s a" for s
    by (induction a arbitrary: s) simp_all
  then show ?thesis by (simp add: dot_zip sum_of_squares_def)
qed

lemma cosineSimilarity_dot:
  "cosineSimilarity a b =
     d_div (dot_product a b) (d_mul (d_sqrt (sum_of_squares a)) (d_sqrt (sum_of_squares b)))"
  by (simp add: cosineSimilarity_def Let_def)

lemma cosineSimilarity_commute:
  "length a = length b \<Longrightarrow> cosineSimilarity a b = cosineSimilarity b a"
  by (simp add: cosineSimilarity_dot dot_commute d_mul_commute)


text \<open>Three roundings of relative error at most \<open>u\<close>: the root, its square, the quotient.\<close>

lemma square_of_rounded_root:
  fixes s u r :: real
  assumes "0 < s" "0 \<le> u" "u \<le> 1 / 16" and "\<bar>r - sqrt s\<bar> \<le> sqrt s * u"
  shows "0 < r" and "s * (1 - 2 * u) \<le> r * r" and "r * r \<le> s * (1 + 3 * u)"
proof -
  let ?t = "sqrt s"
  have t: "0 < ?t" "?t * ?t = s" using assms(1) by simp_all
  have lo: "?t * (1 - u) \<le> r" and hi: "r \<le> ?t * (1 + u)"
    using assms(4) by (simp_all add: algebra_simps abs_le_iff)
  have "0 < ?t * (1 - u)" using t(1) assms(3) by simp
  with lo show r: "0 < r" by linarith
  have uu: "u * u \<le> u" using assms(2,3) by (simp add: mult_left_le)
  have "(?t * (1 - u)) * (?t * (1 - u)) \<le> r * r"
    using lo r t(1) assms(3) by (intro mult_mono) simp_all
  moreover have "(?t * (1 - u)) * (?t * (1 - u)) = s * ((1 - u) * (1 - u))"
    using t(2) by (simp add: algebra_simps)
  moreover have "(1 - u) * (1 - u) = 1 - 2 * u + u * u" by (simp add: algebra_simps)
  then have "1 - 2 * u \<le> (1 - u) * (1 - u)" using assms(2) by simp
  then have "s * (1 - 2 * u) \<le> s * ((1 - u) * (1 - u))"
    using assms(1) by (simp add: mult_left_mono)
  ultimately show "s * (1 - 2 * u) \<le> r * r" by linarith
  have "r * r \<le> (?t * (1 + u)) * (?t * (1 + u))"
    using hi r by (intro mult_mono) simp_all
  moreover have "(?t * (1 + u)) * (?t * (1 + u)) = s * ((1 + u) * (1 + u))"
    using t(2) by (simp add: algebra_simps)
  moreover have "(1 + u) * (1 + u) = 1 + 2 * u + u * u" by (simp add: algebra_simps)
  then have "(1 + u) * (1 + u) \<le> 1 + 3 * u" using uu by linarith
  then have "s * ((1 + u) * (1 + u)) \<le> s * (1 + 3 * u)"
    using assms(1) by (simp add: mult_left_mono)
  ultimately show "r * r \<le> s * (1 + 3 * u)" by linarith
qed

lemma rounded_square:
  fixes s u p r :: real
  assumes "0 < s" "0 \<le> u" "u \<le> 1 / 16"
    and "s * (1 - 2 * u) \<le> p" "p \<le> s * (1 + 3 * u)" and "\<bar>r - p\<bar> \<le> p * u"
  shows "s * (1 - 3 * u) \<le> r" and "r \<le> s * (1 + 5 * u)"
proof -
  have "0 \<le> s * (1 - 2 * u)" using assms(1,3) by (intro mult_nonneg_nonneg) simp_all
  with assms(4) have p: "0 \<le> p" by linarith
  have "u * u \<le> u * (1 / 16)" using assms(2,3) by (intro mult_left_mono) simp_all
  then have uu: "0 \<le> u * u" "u * u \<le> u / 16" by simp_all
  have "p * (1 - u) \<le> r" "r \<le> p * (1 + u)"
    using assms(6) by (simp_all add: algebra_simps abs_le_iff)
  moreover have "s * (1 - 2 * u) * (1 - u) \<le> p * (1 - u)"
    using assms(3,4) by (intro mult_right_mono) simp_all
  moreover have "p * (1 + u) \<le> s * (1 + 3 * u) * (1 + u)"
    using assms(2,5) by (intro mult_right_mono) simp_all
  moreover have "(1 - 2 * u) * (1 - u) = 1 - 3 * u + 2 * (u * u)" by (simp add: algebra_simps)
  then have "1 - 3 * u \<le> (1 - 2 * u) * (1 - u)" using uu by linarith
  then have "s * (1 - 3 * u) \<le> s * ((1 - 2 * u) * (1 - u))"
    using assms(1) by (simp add: mult_left_mono)
  moreover have "(1 + 3 * u) * (1 + u) = 1 + 4 * u + 3 * (u * u)" by (simp add: algebra_simps)
  then have "(1 + 3 * u) * (1 + u) \<le> 1 + 5 * u" using uu by linarith
  then have "s * ((1 + 3 * u) * (1 + u)) \<le> s * (1 + 5 * u)"
    using assms(1) by (simp add: mult_left_mono)
  ultimately show "s * (1 - 3 * u) \<le> r" and "r \<le> s * (1 + 5 * u)"
    by (simp_all add: mult.assoc)
qed

lemma quotient_near_one:
  fixes s u r :: real
  assumes "0 < s" "0 \<le> u" "u \<le> 1 / 16"
    and "s * (1 - 3 * u) \<le> r" "r \<le> s * (1 + 5 * u)"
  shows "1 - 5 * u \<le> s / r" and "s / r \<le> 1 + 4 * u"
proof -
  have "u * u \<le> u * (1 / 16)" using assms(2,3) by (intro mult_left_mono) simp_all
  then have uu: "0 \<le> u * u" "u * u \<le> u / 16" by simp_all
  have "0 < s * (1 - 3 * u)" using assms(1,3) by (intro mult_pos_pos) simp_all
  with assms(4) have r: "0 < r" by linarith
  have "(1 - 5 * u) * (1 + 5 * u) = 1 - 25 * (u * u)" by (simp add: algebra_simps)
  then have "(1 - 5 * u) * (1 + 5 * u) \<le> 1" using uu by linarith
  then have "s * ((1 - 5 * u) * (1 + 5 * u)) \<le> s * 1"
    using assms(1) by (intro mult_left_mono) simp_all
  then have "(1 - 5 * u) * (s * (1 + 5 * u)) \<le> s" by (simp add: mult.assoc mult.left_commute)
  moreover have "(1 - 5 * u) * r \<le> (1 - 5 * u) * (s * (1 + 5 * u))"
    using assms(3,5) by (intro mult_left_mono) simp_all
  ultimately show "1 - 5 * u \<le> s / r" using r by (simp add: pos_le_divide_eq)
  have "(1 + 4 * u) * (1 - 3 * u) = 1 + u - 12 * (u * u)" by (simp add: algebra_simps)
  then have "1 \<le> (1 + 4 * u) * (1 - 3 * u)" using uu by linarith
  then have "s * 1 \<le> s * ((1 + 4 * u) * (1 - 3 * u))"
    using assms(1) by (intro mult_left_mono) simp_all
  then have "s \<le> (1 + 4 * u) * (s * (1 - 3 * u))" by (simp add: mult.assoc mult.left_commute)
  moreover have "(1 + 4 * u) * (s * (1 - 3 * u)) \<le> (1 + 4 * u) * r"
    using assms(2,4) by (intro mult_left_mono) simp_all
  ultimately show "s / r \<le> 1 + 4 * u" using r by (simp add: pos_divide_le_eq)
qed

lemma rounded_quotient:
  fixes u q r :: real
  assumes "0 \<le> u" "u \<le> 1 / 16" and "1 - 5 * u \<le> q" "q \<le> 1 + 4 * u" and "\<bar>r - q\<bar> \<le> q * u"
  shows "\<bar>r - 1\<bar> \<le> 7 * u"
proof -
  have "u * u \<le> u * (1 / 16)" using assms(1,2) by (intro mult_left_mono) simp_all
  then have uu: "0 \<le> u * u" "u * u \<le> u / 16" by simp_all
  have "q * u \<le> (1 + 4 * u) * u" using assms(1,4) by (intro mult_right_mono) simp_all
  also have "\<dots> = u + 4 * (u * u)" by (simp add: algebra_simps)
  also have "\<dots> \<le> 2 * u" using uu by linarith
  finally have "\<bar>r - q\<bar> \<le> 2 * u" using assms(5) by linarith
  moreover have "\<bar>q - 1\<bar> \<le> 5 * u" using assms(1,3,4) by (simp add: abs_le_iff)
  ultimately show ?thesis by linarith
qed


lemma nearest_two [simp]: "nearest 2 = 2"
proof -
  have "\<not> \<bar>2::real\<bar> < 1 / 2 ^ 1022" by simp
  moreover have "\<lfloor>log 2 \<bar>2::real\<bar>\<rfloor> = 1" by simp
  then have "(2::real) powr of_int (\<lfloor>log 2 \<bar>2\<bar>\<rfloor> - 52) = 1 / 2 ^ 51"
    by (simp add: powr_minus_divide powr_numeral del: power_numeral)
  moreover have "(2::real) * 2 ^ 51 = 2 ^ 52" "(2::real) ^ 52 / 2 ^ 51 = 2" by simp_all
  ultimately show ?thesis
    by (simp add: nearest_def Let_def del: power_numeral)
qed

lemma rnd_finite:
  assumes "1 / 2 ^ 1022 \<le> \<bar>x\<bar>" and "\<bar>x\<bar> \<le> 2 ^ 1023"
  shows "rnd x = Finite (nearest x)" and "\<bar>nearest x - x\<bar> \<le> \<bar>x\<bar> * (1 / 2 ^ 53)"
proof -
  show e: "\<bar>nearest x - x\<bar> \<le> \<bar>x\<bar> * (1 / 2 ^ 53)"
    using nearest_error [OF assms(1)] by simp
  have "\<bar>x\<bar> * (1 / 2 ^ 53) \<le> 2 ^ 1023 * (1 / 2 ^ 53)"
    using assms(2) by (intro mult_right_mono) simp_all
  with e assms(2) have "\<bar>nearest x\<bar> \<le> 2 ^ 1023 + 2 ^ 1023 * (1 / 2 ^ 53)" by linarith
  also have "\<dots> < 2 ^ 1024" by simp
  finally show "rnd x = Finite (nearest x)" by (simp add: rnd_def Let_def abs_less_iff)
qed

text \<open>
  Claim C9, amended. \<^verbatim>\<open>cosineSimilarity\<close> returns the same double for \<open>(a, b)\<close> and for
  \<open>(b, a)\<close> when \<open>a\<close> and \<open>b\<close> have the same length (\<^verbatim>\<open>NaN\<close> for both when it is
  \<^verbatim>\<open>NaN\<close>). For every vector \<open>a\<close> whose sum of squares, as the program computes it,
  is a finite double from \<open>1 / 2 ^ 1021\<close> to \<open>2 ^ 1022\<close>, \<^verbatim>\<open>cosineSimilarity(a, a)\<close> is a
  finite double within \<open>1 / 2 ^ 50\<close> of 1.
\<close>

theorem cosineSimilarity_doubles:
  "(length a = length b \<longrightarrow> cosineSimilarity a b = cosineSimilarity b a)
   \<and> (\<forall>s. sum_of_squares a = Finite s \<and> 1 / 2 ^ 1021 \<le> s \<and> s \<le> 2 ^ 1022 \<longrightarrow>
          (\<exists>r. cosineSimilarity a a = Finite r \<and> \<bar>r - 1\<bar> \<le> 1 / 2 ^ 50))"
proof (intro conjI impI allI)
  assume "length a = length b"
  then show "cosineSimilarity a b = cosineSimilarity b a" by (rule cosineSimilarity_commute)
next
  fix s assume "sum_of_squares a = Finite s \<and> 1 / 2 ^ 1021 \<le> s \<and> s \<le> 2 ^ 1022"
  then have S: "sum_of_squares a = Finite s" and lo: "1 / 2 ^ 1021 \<le> s" and hi: "s \<le> 2 ^ 1022"
    by simp_all
  define u :: real where "u = 1 / 2 ^ 53"
  have u: "0 \<le> u" "u \<le> 1 / 16" by (simp_all add: u_def)
  have "0 < (1::real) / 2 ^ 1021" by simp
  with lo have s: "0 < s" by linarith
  \<comment> \<open>the root\<close>
  have "(1 / 2 ^ 1022)\<^sup>2 \<le> s" using lo by (simp add: power2_eq_square)
  then have t_lo: "1 / 2 ^ 1022 \<le> sqrt s" by (rule real_le_rsqrt)
  have "s \<le> (2 ^ 1023)\<^sup>2" using hi by (simp add: power2_eq_square)
  then have t_hi: "sqrt s \<le> 2 ^ 1023" by (intro real_le_lsqrt) simp_all
  define r1 where "r1 = nearest (sqrt s)"
  have m: "d_sqrt (Finite s) = Finite r1" and e1: "\<bar>r1 - sqrt s\<bar> \<le> sqrt s * u"
    using rnd_finite [of "sqrt s"] t_lo t_hi s by (simp_all add: r1_def u_def)
  note sq = square_of_rounded_root [OF s u e1]
  \<comment> \<open>its square\<close>
  have "1 / 2 ^ 1022 \<le> s * (1 - 2 * u)"
  proof -
    have "(1 / 2 ^ 1021) * (1 / 2) \<le> s * (1 - 2 * u)"
      using lo by (intro mult_mono) (simp_all add: u_def)
    then show ?thesis by simp
  qed
  with sq(2) have p_lo: "1 / 2 ^ 1022 \<le> \<bar>r1 * r1\<bar>" by simp
  have "s * (1 + 3 * u) \<le> 2 ^ 1022 * 2"
    using hi s by (intro mult_mono) (simp_all add: u_def)
  with sq(3) have p_hi: "\<bar>r1 * r1\<bar> \<le> 2 ^ 1023" by simp
  define r2 where "r2 = nearest (r1 * r1)"
  have d: "d_mul (Finite r1) (Finite r1) = Finite r2" and e2: "\<bar>r2 - r1 * r1\<bar> \<le> r1 * r1 * u"
    using rnd_finite [OF p_lo p_hi] by (simp_all add: r2_def u_def)
  note r2 = rounded_square [OF s u sq(2) sq(3) e2]
  note q = quotient_near_one [OF s u r2]
  have r2_pos: "0 < r2"
  proof -
    have "0 < s * (1 - 3 * u)" using s by (intro mult_pos_pos) (simp_all add: u_def)
    with r2(1) show ?thesis by linarith
  qed
  \<comment> \<open>the quotient\<close>
  have "1 / 2 \<le> 1 - 5 * u" "1 + 4 * u \<le> 2" by (simp_all add: u_def)
  with q have q1: "1 / 2 \<le> s / r2" "s / r2 \<le> 2" by linarith+
  then have q_abs: "\<bar>s / r2\<bar> = s / r2" by linarith
  have "(1::real) / 2 ^ 1022 \<le> 1 / 2" "(2::real) \<le> 2 ^ 1023" by simp_all
  with q1 have q_bounds: "1 / 2 ^ 1022 \<le> \<bar>s / r2\<bar>" "\<bar>s / r2\<bar> \<le> 2 ^ 1023"
    unfolding q_abs by linarith+
  define r3 where "r3 = nearest (s / r2)"
  have res: "d_div (Finite s) (Finite r2) = Finite r3" and e3: "\<bar>r3 - s / r2\<bar> \<le> s / r2 * u"
    using rnd_finite [OF q_bounds] r2_pos unfolding q_abs by (simp_all add: r3_def u_def)
  have "\<bar>r3 - 1\<bar> \<le> 7 * u" by (rule rounded_quotient [OF u q e3])
  then have "\<bar>r3 - 1\<bar> \<le> 1 / 2 ^ 50" by (simp add: u_def)
  moreover have "cosineSimilarity a a = Finite r3"
    by (simp only: cosineSimilarity_dot dot_self S m d res)
  ultimately show "\<exists>r. cosineSimilarity a a = Finite r \<and> \<bar>r - 1\<bar> \<le> 1 / 2 ^ 50" by blast
qed

text \<open>
  Claim C9, as stated, fails for a vector that is not zero but whose squares underflow:
  the sum of squares of \<open>[1 / 2 ^ 600]\<close> is computed as 0, and the similarity of the
  vector with itself is \<open>0 / 0\<close>, that is \<^verbatim>\<open>NaN\<close>, not 1.
\<close>

theorem cosineSimilarity_underflow_counterexample:
  "cosineSimilarity [Finite (1 / 2 ^ 600)] [Finite (1 / 2 ^ 600)] = NaN"
proof -
  have "nearest (1 / 2 ^ 600 * (1 / 2 ^ 600)) = 0"
    by (rule nearest_underflow) simp
  then have "d_mul (Finite (1 / 2 ^ 600)) (Finite (1 / 2 ^ 600)) = Finite 0"
    by (simp add: rnd_def)
  then show ?thesis
    by (simp add: cosineSimilarity_def dot_product_def sum_of_squares_def js_index_def)
qed

theorem cosineSimilarity_doubles_witness:
  "cosineSimilarity [Finite 1, Finite 0] [Finite 0, Finite 1] =
     cosineSimilarity [Finite 0, Finite 1] [Finite 1, Finite 0]
   \<and> (\<exists>r. cosineSimilarity [Finite 1, Finite 1] [Finite 1, Finite 1] = Finite r
          \<and> \<bar>r - 1\<bar> \<le> 1 / 2 ^ 50)"
proof -
  have "sum_of_squares [Finite 1, Finite 1] = Finite 2"
    by (simp add: sum_of_squares_def rnd_def)
  with cosineSimilarity_doubles [of "[Finite 1, Finite 0]" "[Finite 0, Finite 1]"]
    cosineSimilarity_doubles [of "[Finite 1, Finite 1]" "[]"]
  show ?thesis by simp
qed

subsection \<open>Saving and reading back a memory\<close>

lemma find_filter_distinct:
  "distinct (map f xs) \<Longrightarrow> find (\<lambda>m. f m = i) xs = Some e \<Longrightarrow> filter (\<lambda>m. f m = i) xs = [e]"
proof (induction xs)
  case Nil
  then show ?case by simp
next
  case (Cons x xs)
  show ?case
  proof (cases "f x = i")
    case True
    from Cons.prems(1) have "f x \<notin> f ` set xs" by simp
    with True have "\<forall>y\<in>set xs. f y \<noteq> i" by blast
    moreover from Cons.prems(2) True have "e = x" by simp
    ultimately show ?thesis using True by (simp add: filter_empty_conv)
  next
    case False
    with Cons show ?thesis by simp
  qed
qed

lemma find_None_filter:
  "find (\<lambda>m. f m = i) xs = None \<Longrightarrow> filter (\<lambda>m. f m = i) xs = []"
  by (simp add: find_None_iff filter_empty_conv)

lemma save_memory_success:
  "success (fst (save_memory rt now i txt md st)) \<Longrightarrow> \<exists>e. generateEmbedding rt txt = Inr e"
  by (auto simp: save_memory_def Let_def split: sum.splits)

lemma rows_after_insert:
  assumes "select_by_id i st = None"
  shows "filter (\<lambda>m. mem_id m = i) (memories (insert_memory i txt e md c u st)) =
         [\<lparr>mem_id = i, mem_text = txt, mem_embedding = e, mem_metadata = Some md,
           mem_created_at = c, mem_updated_at = u\<rparr>]"
  using assms find_None_filter [of mem_id i "memories st"]
  by (simp add: insert_memory_def select_by_id_def)

lemma rows_after_update:
  assumes "primary_key st" and "select_by_id i st = Some old"
  shows "filter (\<lambda>m. mem_id m = i) (memories (update_memory txt e md u i st)) =
         [old\<lparr>mem_text := txt, mem_embedding := e, mem_metadata := Some md, mem_updated_at := u\<rparr>]"
proof -
  have one: "filter (\<lambda>m. mem_id m = i) (memories st) = [old]"
    using assms find_filter_distinct [of mem_id "memories st" i old]
    by (simp add: primary_key_def select_by_id_def)
  have upd: "filter (\<lambda>m. mem_id m = i)
          (map (\<lambda>m. if mem_id m = i
                    then m\<lparr>mem_text := txt, mem_embedding := e, mem_metadata := Some md,
                           mem_updated_at := u\<rparr>
                    else m) xs) =
        map (\<lambda>m. m\<lparr>mem_text := txt, mem_embedding := e, mem_metadata := Some md,
                     mem_updated_at := u\<rparr>)
          (filter (\<lambda>m. mem_id m = i) xs)" for xs :: "memory list"
    by (induction xs) auto
  show ?thesis by (simp add: update_memory_def upd one)
qed

lemma rows_after_save:
  assumes "primary_key st" and "generateEmbedding rt txt = Inr e"
  shows "filter (\<lambda>m. mem_id m = i) (memories (snd (save_memory rt now i txt md st))) =
         [\<lparr>mem_id = i, mem_text = txt, mem_embedding = e,
           mem_metadata = Some (stored_json (case md of None \<Rightarrow> JObj [] | Some m \<Rightarrow> m)),
           mem_created_at = (case select_by_id i st of None \<Rightarrow> now | Some old \<Rightarrow> mem_created_at old),
           mem_updated_at = now\<rparr>]"
proof (cases "select_by_id i st")
  case None
  then show ?thesis using assms rows_after_insert [OF None]
    by (simp add: save_memory_def)
next
  case (Some old)
  have "mem_id old = i" using Some by (auto simp: select_by_id_def find_Some_iff)
  then show ?thesis using assms Some rows_after_update [OF assms(1) Some]
    by (simp add: save_memory_def)
qed

lemma primary_key_save: "primary_key st \<Longrightarrow> primary_key (snd (save_memory rt now i txt md st))"
proof -
  have m: "mem_id \<circ> (\<lambda>m. if mem_id m = i then m\<lparr>mem_text := txt, mem_embedding := e, mem_metadata := Some x, mem_updated_at := now\<rparr> else m) = mem_id" for e x
    by (auto simp: fun_eq_iff)
  assume "primary_key st"
  then show ?thesis
    by (auto simp: save_memory_def primary_key_def Let_def update_memory_def insert_memory_def m
        select_by_id_def find_None_iff split: sum.splits option.splits)
qed

lemma find_filter: "find P xs = (case filter P xs of [] \<Rightarrow> None | x # _ \<Rightarrow> Some x)"
  by (induction xs) auto

text \<open>
  Claim C1. In a table that satisfies its primary key, two successful calls
  \<^verbatim>\<open>save_memory(id, text1)\<close> and then \<^verbatim>\<open>save_memory(id, text2)\<close> leave exactly one row
  with that id after each call. The row after the second call has the text \<open>text2\<close>,
  the \<^verbatim>\<open>created_at\<close> of the row after the first call (the time of the first call when
  the id was new, the older row's \<^verbatim>\<open>created_at\<close> otherwise) and the time of the second
  call as \<^verbatim>\<open>updated_at\<close>.
\<close>

theorem save_memory_twice:
  assumes "primary_key st"
    and "success (fst (save_memory rt now1 i text1 md1 st))"
    and "success (fst (save_memory rt now2 i text2 md2 (snd (save_memory rt now1 i text1 md1 st))))"
  shows "\<exists>r1 r2.
           filter (\<lambda>m. mem_id m = i) (memories (snd (save_memory rt now1 i text1 md1 st))) = [r1]
         \<and> mem_created_at r1 = (case select_by_id i st of None \<Rightarrow> now1 | Some old \<Rightarrow> mem_created_at old)
         \<and> filter (\<lambda>m. mem_id m = i)
             (memories (snd (save_memory rt now2 i text2 md2 (snd (save_memory rt now1 i text1 md1 st))))) = [r2]
         \<and> mem_text r2 = text2
         \<and> mem_created_at r2 = mem_created_at r1
         \<and> mem_updated_at r2 = now2"
proof -
  let ?st1 = "snd (save_memory rt now1 i text1 md1 st)"
  obtain e1 where e1: "generateEmbedding rt text1 = Inr e1"
    using assms(2) save_memory_success by blast
  obtain e2 where e2: "generateEmbedding rt text2 = Inr e2"
    using assms(3) save_memory_success by blast
  have pk1: "primary_key ?st1" using assms(1) by (rule primary_key_save)
  note r1 = rows_after_save [OF assms(1) e1, of i now1 md1]
  note r2 = rows_after_save [OF pk1 e2, of i now2 md2]
  have sel: "select_by_id i ?st1 = Some \<lparr>mem_id = i, mem_text = text1, mem_embedding = e1,
           mem_metadata = Some (stored_json (case md1 of None \<Rightarrow> JObj [] | Some m \<Rightarrow> m)),
           mem_created_at = (case select_by_id i st of None \<Rightarrow> now1 | Some old \<Rightarrow> mem_created_at old),
           mem_updated_at = now1\<rparr>"
    using r1 unfolding select_by_id_def by (simp add: find_filter)
  show ?thesis using r1 r2 sel by simp
qed


theorem save_memory_twice_witness:
  "\<exists>r1 r2.
     filter (\<lambda>m. mem_id m = ''x'')
       (memories (snd (save_memory demo_rt ''2024-10-28T10:00:01.000Z'' ''x'' ''hello'' None empty_db))) = [r1]
   \<and> mem_created_at r1 = ''2024-10-28T10:00:01.000Z''
   \<and> filter (\<lambda>m. mem_id m = ''x'')
       (memories (snd (save_memory demo_rt ''2024-10-28T10:00:02.000Z'' ''x'' ''bye'' None
          (snd (save_memory demo_rt ''2024-10-28T10:00:01.000Z'' ''x'' ''hello'' None empty_db))))) = [r2]
   \<and> mem_text r2 = ''bye''
   \<and> mem_created_at r2 = mem_created_at r1
   \<and> mem_updated_at r2 = ''2024-10-28T10:00:02.000Z''"
  using save_memory_twice [of empty_db demo_rt "''2024-10-28T10:00:01.000Z''" "''x''" "''hello''" None
      "''2024-10-28T10:00:02.000Z''" "''bye''" None]
  by (simp add: primary_key_def empty_db_def save_memory_def generateEmbedding_def demo_rt_def
      demo_embedder_def select_by_id_def insert_memory_def update_memory_def)

text \<open>
  Claim C6. After a successful \<^verbatim>\<open>save_memory(id, text)\<close>, \<^verbatim>\<open>get_memory(id)\<close> answers
  with success and a memory whose text is the text saved.
\<close>

theorem save_then_get:
  assumes "success (fst (save_memory rt now i txt md st))"
  shows "\<exists>v. get_memory i (snd (save_memory rt now i txt md st)) = Memory_found v
           \<and> view_text v = txt
           \<and> success (get_memory i (snd (save_memory rt now i txt md st)))"
proof -
  obtain e where e: "generateEmbedding rt txt = Inr e"
    using assms save_memory_success by blast
  let ?m = "stored_json (case md of None \<Rightarrow> JObj [] | Some m \<Rightarrow> m)"
  have upd: "find (\<lambda>m. mem_id m = i)
          (map (\<lambda>m. if mem_id m = i
                    then m\<lparr>mem_text := txt, mem_embedding := e, mem_metadata := Some ?m,
                           mem_updated_at := now\<rparr>
                    else m) xs) =
        map_option (\<lambda>m. m\<lparr>mem_text := txt, mem_embedding := e, mem_metadata := Some ?m,
                     mem_updated_at := now\<rparr>)
          (find (\<lambda>m. mem_id m = i) xs)" for xs :: "memory list"
    by (induction xs) auto
  have ins: "find (\<lambda>m. mem_id m = i) xs = None \<Longrightarrow>
             find (\<lambda>m. mem_id m = i) (xs @ [r]) = (if mem_id r = i then Some r else None)"
    for xs :: "memory list" and r
    by (induction xs) (auto split: if_splits)
  show ?thesis
  proof (cases "select_by_id i st")
    case None
    then show ?thesis using e ins [of "memories st"]
      by (simp add: save_memory_def get_memory_def select_by_id_def insert_memory_def)
  next
    case (Some old)
    then show ?thesis using e upd [of "memories st"]
      by (simp add: save_memory_def get_memory_def select_by_id_def update_memory_def)
  qed
qed

theorem save_then_get_witness:
  "\<exists>v. get_memory ''x'' (snd (save_memory demo_rt ''2024-10-28T10:00:01.000Z'' ''x'' ''hello'' None empty_db))
          = Memory_found v
      \<and> view_text v = ''hello''
      \<and> success (get_memory ''x''
           (snd (save_memory demo_rt ''2024-10-28T10:00:01.000Z'' ''x'' ''hello'' None empty_db)))"
  using save_then_get [of demo_rt "''2024-10-28T10:00:01.000Z''" "''x''" "''hello''" None empty_db]
  by (simp add: empty_db_def save_memory_def generateEmbedding_def demo_rt_def
      demo_embedder_def select_by_id_def)

subsection \<open>Searching\<close>

text \<open>
  Claim C5. When no memory is stored, \<^verbatim>\<open>search_memory\<close> answers, for every query,
  \<open>n_results\<close> and \<open>threshold\<close>, with success, an empty list of results and the message
  \<^verbatim>\<open>No memories stored yet\<close>; the answer is not an error.
\<close>

theorem search_memory_empty_store:
  assumes "memories st = []"
  shows "search_memory rt query n_results threshold st =
           Search_results query [] (Some ''No memories stored yet'')
         \<and> success (search_memory rt query n_results threshold st)
         \<and> \<not> isError (search_memory rt query n_results threshold st)"
  using assms by (simp add: search_memory_def)

theorem search_memory_empty_store_witness:
  "search_memory demo_rt ''cat'' (Some (- 3)) (Some 7) empty_db =
     Search_results ''cat'' [] (Some ''No memories stored yet'')
   \<and> success (search_memory demo_rt ''cat'' (Some (- 3)) (Some 7) empty_db)
   \<and> \<not> isError (search_memory demo_rt ''cat'' (Some (- 3)) (Some 7) empty_db)"
  using search_memory_empty_store [of empty_db demo_rt "''cat''" "Some (- 3)" "Some 7"]
  by (simp add: empty_db_def)

text \<open>Ranking: the sort keeps the elements, orders them by score and is stable.\<close>

lemma sort_order_by_similarity:
  "scored x \<Longrightarrow> scored y \<Longrightarrow>
     d_le (sort_order (by_similarity x y)) (Finite 0) \<longleftrightarrow> score_ge x y"
  by (simp add: scored_def by_similarity_def score_ge_def comparator_sign)

lemma sort_order_same:
  "similarity x = similarity y \<Longrightarrow> d_le (sort_order (by_similarity x y)) (Finite 0)"
  by (cases "similarity y") (simp_all add: by_similarity_def d_sub_def sort_order_def)

lemma d_le_trans: "d_le x y \<Longrightarrow> d_le y z \<Longrightarrow> d_le x z"
  by (cases x; cases y; cases z) simp_all

lemma d_le_total: "x \<noteq> NaN \<Longrightarrow> y \<noteq> NaN \<Longrightarrow> \<not> d_le x y \<Longrightarrow> d_le y x"
  by (cases x; cases y) simp_all

lemma set_insert_sorted: "set (insert_sorted cmp x ys) = insert x (set ys)"
  by (induction ys) auto

lemma set_js_sort: "set (js_sort cmp xs) = set xs"
  by (induction xs) (simp_all add: js_sort_def set_insert_sorted)

lemma length_insert_sorted: "length (insert_sorted cmp x ys) = Suc (length ys)"
  by (induction ys) auto

lemma length_js_sort: "length (js_sort cmp xs) = length xs"
  by (induction xs) (simp_all add: js_sort_def length_insert_sorted)

lemma score_ge_trans: "score_ge a b \<Longrightarrow> score_ge b c \<Longrightarrow> score_ge a c"
  unfolding score_ge_def by (rule d_le_trans)

lemma sorted_insert_sorted:
  assumes "sorted_wrt score_ge ys" and "scored x"
    and "\<forall>y\<in>set ys. scored y"
  shows "sorted_wrt score_ge (insert_sorted by_similarity x ys)"
  using assms
proof (induction ys)
  case Nil
  then show ?case by simp
next
  case (Cons y ys)
  show ?case
  proof (cases "d_le (sort_order (by_similarity x y)) (Finite 0)")
    case True
    with Cons.prems have xy: "score_ge x y"
      by (simp add: sort_order_by_similarity)
    have "score_ge x z" if "z \<in> set ys" for z
      using Cons.prems(1) that xy score_ge_trans by auto
    with xy True Cons.prems(1) show ?thesis by simp
  next
    case False
    with Cons.prems have "\<not> score_ge x y"
      by (simp add: sort_order_by_similarity)
    with Cons.prems have yx: "score_ge y x"
      by (simp add: score_ge_def scored_def d_le_total)
    from Cons have "sorted_wrt score_ge (insert_sorted by_similarity x ys)" by simp
    with False yx Cons.prems(1) show ?thesis by (simp add: set_insert_sorted)
  qed
qed

lemma sorted_js_sort:
  "\<forall>x\<in>set xs. scored x \<Longrightarrow> sorted_wrt score_ge (js_sort by_similarity xs)"
proof (induction xs)
  case Nil
  then show ?case by (simp add: js_sort_def)
next
  case (Cons x xs)
  then have "sorted_wrt score_ge (js_sort by_similarity xs)" by simp
  moreover have "\<forall>y\<in>set (js_sort by_similarity xs). scored y"
    using Cons.prems by (simp add: set_js_sort)
  ultimately have "sorted_wrt score_ge (insert_sorted by_similarity x (js_sort by_similarity xs))"
    using Cons.prems by (intro sorted_insert_sorted) simp_all
  then show ?case by (simp add: js_sort_def)
qed

lemma filter_insert_sorted:
  "filter (\<lambda>r. similarity r = s) (insert_sorted by_similarity x ys) =
     (if similarity x = s then x # filter (\<lambda>r. similarity r = s) ys
      else filter (\<lambda>r. similarity r = s) ys)"
proof (induction ys)
  case Nil
  then show ?case by simp
next
  case (Cons y ys)
  show ?case
  proof (cases "d_le (sort_order (by_similarity x y)) (Finite 0)")
    case True
    then show ?thesis by simp
  next
    case False
    then have "similarity x = s \<Longrightarrow> similarity y \<noteq> s"
      using sort_order_same [of x y] by auto
    with False Cons.IH show ?thesis by simp
  qed
qed

lemma js_sort_stable:
  "filter (\<lambda>r. similarity r = s) (js_sort by_similarity xs) = filter (\<lambda>r. similarity r = s) xs"
  by (induction xs) (simp_all add: js_sort_def filter_insert_sorted)

text \<open>
  Slicing: \<^verbatim>\<open>slice(0, end)\<close> is a prefix, of at most \<open>end\<close> elements when \<open>end\<close> is
  not negative.
\<close>

lemma slice0_take: "\<exists>k. slice0 xs e = take k xs"
  by (auto simp: slice0_def Let_def)

lemma length_slice0: "0 \<le> e \<Longrightarrow> real (length (slice0 xs e)) \<le> e"
proof -
  assume e: "0 \<le> e"
  then have "length (slice0 xs e) \<le> nat \<lfloor>e\<rfloor>"
    by (simp add: slice0_def ToIntegerOrInfinity_def Let_def)
  then have "real (length (slice0 xs e)) \<le> real (nat \<lfloor>e\<rfloor>)" by simp
  also have "\<dots> \<le> e" using e by simp
  finally show ?thesis .
qed

lemma slice0_all: "length xs \<le> n \<Longrightarrow> slice0 xs (real n) = xs"
  by (simp add: slice0_def ToIntegerOrInfinity_def Let_def)

text \<open>The results of a search, and the search on the three demo memories.\<close>

lemma js_ge_number: "js_ge x t \<Longrightarrow> x \<noteq> NaN"
  by (cases x) (simp_all add: js_ge_def)

lemma on_grid_to_result: "on_grid (similarity (to_result q m))"
  by (simp add: to_result_def cosineSimilarity_def Let_def on_grid_d_div)

lemma search_memory_results:
  "results (search_memory rt query n_arg t_arg st) =
     (case generateEmbedding rt query of
        Inl msg \<Rightarrow> []
      | Inr q \<Rightarrow>
          slice0
            (js_sort by_similarity
               (filter (\<lambda>r. js_ge (similarity r) (case t_arg of None \<Rightarrow> nearest (3 / 10) | Some t \<Rightarrow> t))
                  (map (to_result q) (memories st))))
            (case n_arg of None \<Rightarrow> 5 | Some n \<Rightarrow> n))"
  by (cases "memories st")
    (simp_all add: search_memory_def Let_def slice0_def js_sort_def split: sum.splits)

lemma demo_rows:
  "memories demo_db =
     [\<lparr>mem_id = ''a'', mem_text = ''cat'', mem_embedding = [1, 0], mem_metadata = Some (JObj []),
       mem_created_at = ''2024-10-28T10:00:01.000Z'', mem_updated_at = ''2024-10-28T10:00:01.000Z''\<rparr>,
      \<lparr>mem_id = ''b'', mem_text = ''cat'', mem_embedding = [1, 0], mem_metadata = Some (JObj []),
       mem_created_at = ''2024-10-28T10:00:02.000Z'', mem_updated_at = ''2024-10-28T10:00:02.000Z''\<rparr>,
      \<lparr>mem_id = ''c'', mem_text = ''anti-cat'', mem_embedding = [- 1, 0], mem_metadata = Some (JObj []),
       mem_created_at = ''2024-10-28T10:00:03.000Z'', mem_updated_at = ''2024-10-28T10:00:03.000Z''\<rparr>]"
  by (simp add: demo_db_def save_memory_def generateEmbedding_def demo_rt_def demo_embedder_def
      select_by_id_def empty_db_def insert_memory_def)

lemma demo_sims:
  "cosineSimilarity [Finite 1, Finite 0] [Finite 1, Finite 0] = Finite 1"
  "cosineSimilarity [Finite 1, Finite 0] [Finite (- 1), Finite 0] = Finite (- 1)"
  by (simp_all add: cosineSimilarity_def dot_product_def sum_of_squares_def js_index_def)

lemma demo_scored:
  "map (to_result [1, 0]) (memories demo_db) =
     [\<lparr>res_id = ''a'', res_text = ''cat'', res_metadata = JObj [], similarity = Finite 1,
       res_created_at = ''2024-10-28T10:00:01.000Z'', res_updated_at = ''2024-10-28T10:00:01.000Z''\<rparr>,
      \<lparr>res_id = ''b'', res_text = ''cat'', res_metadata = JObj [], similarity = Finite 1,
       res_created_at = ''2024-10-28T10:00:02.000Z'', res_updated_at = ''2024-10-28T10:00:02.000Z''\<rparr>,
      \<lparr>res_id = ''c'', res_text = ''anti-cat'', res_metadata = JObj [], similarity = Finite (- 1),
       res_created_at = ''2024-10-28T10:00:03.000Z'', res_updated_at = ''2024-10-28T10:00:03.000Z''\<rparr>]"
  by (simp add: demo_rows to_result_def demo_sims parse_metadata_def)

lemma demo_query: "generateEmbedding demo_rt ''cat'' = Inr [1, 0]"
  by (simp add: generateEmbedding_def demo_rt_def demo_embedder_def)

lemma demo_search:
  "results (search_memory demo_rt ''cat'' n_arg t_arg demo_db) =
     slice0
       (js_sort by_similarity
          (filter (\<lambda>r. js_ge (similarity r) (case t_arg of None \<Rightarrow> nearest (3 / 10) | Some t \<Rightarrow> t))
             (map (to_result [1, 0]) (memories demo_db))))
       (case n_arg of None \<Rightarrow> 5 | Some n \<Rightarrow> n)"
  by (simp add: search_memory_results demo_query)

lemma ToIntegerOrInfinity_numerals:
  "ToIntegerOrInfinity 0 = 0" "ToIntegerOrInfinity 1 = 1" "ToIntegerOrInfinity 5 = 5"
  "ToIntegerOrInfinity (- 1) = - 1"
  by (simp_all add: ToIntegerOrInfinity_def ceiling_minus)

lemma demo_comparisons:
  "nearest (3 / 10) \<le> 1" "\<not> nearest (3 / 10) \<le> - 1"
  "d_le (rnd (- 2)) (Finite 0)" "\<not> d_le (rnd 2) (Finite 0)"
  using default_threshold rnd_sign(1) [of "- 2"] rnd_sign(2) [of 2] by simp_all

lemmas demo_eval =
  demo_search demo_scored demo_comparisons js_ge_def js_sort_def sort_order_def by_similarity_def
  d_sub_def slice0_def ToIntegerOrInfinity_numerals

lemma search_memory_success:
  "generateEmbedding rt query = Inr q \<Longrightarrow> success (search_memory rt query n_arg t_arg st)"
  by (simp add: search_memory_def Let_def)

lemma results_differ:
  "results r \<noteq> results r' \<Longrightarrow> r \<noteq> r'"
  by auto

text \<open>
  Claim C2, as stated, fails: the ranking is by score, but two results with the same
  score are not ordered by \<^verbatim>\<open>updated_at\<close>. The memories \<open>a\<close> and \<open>b\<close> of the demo
  database have the same score for the query and come back in the order they were
  stored, the older one first.
\<close>

theorem search_memory_ties_counterexample:
  "ranked (results (search_memory demo_rt ''cat'' None None demo_db))
   \<and> \<not> ties_by_updated_at_desc (results (search_memory demo_rt ''cat'' None None demo_db))"
  by (simp add: demo_eval ranked_def score_ge_def ties_by_updated_at_desc_def)

text \<open>
  Claim C2, amended. The results of \<^verbatim>\<open>search_memory\<close> are sorted non-increasing by
  score, every score being a number, and results with the same score appear in the
  order of their rows in the table: for every score \<open>s\<close>, the results with score \<open>s\<close>
  are a prefix of the rows with score \<open>s\<close>, in table order.
\<close>

theorem search_memory_order:
  assumes "generateEmbedding rt query = Inr queryEmbedding"
  shows "ranked (results (search_memory rt query n_results threshold st))
       \<and> prefix (filter (\<lambda>r. similarity r = s) (results (search_memory rt query n_results threshold st)))
           (filter (\<lambda>r. similarity r = s) (map (to_result queryEmbedding) (memories st)))"
proof -
  let ?t = "case threshold of None \<Rightarrow> nearest (3 / 10) | Some t \<Rightarrow> t"
  let ?kept = "filter (\<lambda>r. js_ge (similarity r) ?t) (map (to_result queryEmbedding) (memories st))"
  let ?sorted = "js_sort by_similarity ?kept"
  obtain k where rs: "results (search_memory rt query n_results threshold st) = take k ?sorted"
    using assms slice0_take by (fastforce simp: search_memory_results)
  have some: "\<forall>r\<in>set ?kept. scored r"
    using js_ge_number on_grid_to_result by (auto simp: scored_def)
  then have "sorted_wrt score_ge ?sorted" by (rule sorted_js_sort)
  then have "sorted_wrt score_ge (take k ?sorted)" by (rule sorted_wrt_take)
  moreover have "set (take k ?sorted) \<subseteq> set ?kept"
    using set_take_subset [of k ?sorted] by (simp only: set_js_sort)
  then have "list_all (\<lambda>r. similarity r \<noteq> NaN) (take k ?sorted)"
    using some unfolding list_all_iff scored_def by blast
  ultimately have ranked: "ranked (results (search_memory rt query n_results threshold st))"
    by (simp add: rs ranked_def)
  have "prefix (filter (\<lambda>r. similarity r = s) (take k ?sorted)) (filter (\<lambda>r. similarity r = s) ?sorted)"
    by (intro filter_mono_prefix take_is_prefix)
  also have "filter (\<lambda>r. similarity r = s) ?sorted = filter (\<lambda>r. similarity r = s) ?kept"
    by (rule js_sort_stable)
  also have "\<dots> = filter (\<lambda>r. js_ge s ?t \<and> similarity r = s)
                     (map (to_result queryEmbedding) (memories st))"
    unfolding filter_filter by (rule filter_cong) auto
  finally have "prefix (filter (\<lambda>r. similarity r = s) (take k ?sorted))
                  (filter (\<lambda>r. similarity r = s) (map (to_result queryEmbedding) (memories st)))"
    by (cases "js_ge s ?t") simp_all
  with ranked show ?thesis by (simp add: rs)
qed

theorem search_memory_order_witness:
  "ranked (results (search_memory demo_rt ''cat'' None None demo_db))
   \<and> prefix (filter (\<lambda>r. similarity r = Finite 1) (results (search_memory demo_rt ''cat'' None None demo_db)))
       (filter (\<lambda>r. similarity r = Finite 1) (map (to_result [1, 0]) (memories demo_db)))"
  using search_memory_order [OF demo_query, of None None demo_db "Finite 1"] .

text \<open>
  Claim C3, as stated, fails for a negative \<open>n_results\<close>: \<^verbatim>\<open>slice(0, -1)\<close> drops the
  last element only, so the two matches of the demo database give one result, which is
  more than \<open>-1\<close>.
\<close>

theorem search_memory_limit_counterexample:
  "length (results (search_memory demo_rt ''cat'' (Some (- 1)) None demo_db)) = 1
   \<and> \<not> real (length (results (search_memory demo_rt ''cat'' (Some (- 1)) None demo_db))) \<le> - 1"
  by (simp add: demo_eval)

text \<open>
  Claim C3, amended. For every database, query and threshold and every \<open>n_results\<close>
  that is not negative, \<^verbatim>\<open>search_memory\<close> returns at most \<open>n_results\<close> results; when
  \<open>n_results\<close> is omitted it returns at most 5.
\<close>

theorem search_memory_limit:
  assumes "0 \<le> n_results"
  shows "real (length (results (search_memory rt query (Some n_results) threshold st))) \<le> n_results
       \<and> length (results (search_memory rt query None threshold st)) \<le> 5"
proof -
  have "real (length (results (search_memory rt query n_arg threshold st)))
          \<le> (case n_arg of None \<Rightarrow> 5 | Some n \<Rightarrow> n)"
    if "0 \<le> (case n_arg of None \<Rightarrow> 5 | Some n \<Rightarrow> n)" for n_arg :: "real option"
    using that by (auto simp: search_memory_results length_slice0 split: sum.splits)
  from this [of "Some n_results"] this [of None] assms show ?thesis by simp
qed

theorem search_memory_limit_witness:
  "real (length (results (search_memory demo_rt ''cat'' (Some 0) None demo_db))) \<le> 0
   \<and> length (results (search_memory demo_rt ''cat'' None None demo_db)) \<le> 5"
  using search_memory_limit [of 0 demo_rt "''cat''" None demo_db] by simp

text \<open>
  Claim C4, as stated, fails: \<^verbatim>\<open>search_memory\<close> neither clamps nor rejects. With
  \<open>n_results = 0\<close> it succeeds with no result where the clamped call returns one, and
  with \<open>threshold = -1\<close> it returns the memory of score \<open>-1\<close> that the clamped call
  leaves out.
\<close>

theorem search_memory_validation_counterexample:
  "\<not> clamps_or_rejects demo_rt ''cat'' 0 (3 / 10) demo_db
   \<and> \<not> clamps_or_rejects demo_rt ''cat'' 5 (- 1) demo_db"
proof -
  have "results (search_memory demo_rt ''cat'' (Some 0) (Some (3 / 10)) demo_db)
          \<noteq> results (search_memory demo_rt ''cat'' (Some (max 1 0)) (Some (min 1 (max 0 (3 / 10)))) demo_db)"
    by (simp add: demo_eval)
  moreover have "results (search_memory demo_rt ''cat'' (Some 5) (Some (- 1)) demo_db)
          \<noteq> results (search_memory demo_rt ''cat'' (Some (max 1 5)) (Some (min 1 (max 0 (- 1)))) demo_db)"
    by (simp add: demo_eval)
  ultimately show ?thesis
    unfolding clamps_or_rejects_def
    using search_memory_success [OF demo_query] results_differ by blast
qed

text \<open>
  Claim C4, amended. \<^verbatim>\<open>search_memory\<close> does not validate \<open>n_results\<close> or \<open>threshold\<close>
  and rejects no value of either: whenever the query can be embedded the call succeeds;
  the rows it ranks are exactly those whose score is at least the threshold as given;
  and its results are \<^verbatim>\<open>slice(0, n_results)\<close>, with \<open>n_results\<close> as given, of that
  ranking (the results of the call with \<open>n_results\<close> the number of rows).
\<close>

theorem search_memory_unvalidated:
  assumes "generateEmbedding rt query = Inr queryEmbedding"
  shows "success (search_memory rt query (Some n_results) (Some threshold) st)
       \<and> set (results (search_memory rt query (Some (real (length (memories st)))) (Some threshold) st)) =
           {r \<in> to_result queryEmbedding ` set (memories st). js_ge (similarity r) threshold}
       \<and> results (search_memory rt query (Some n_results) (Some threshold) st) =
           slice0 (results (search_memory rt query (Some (real (length (memories st)))) (Some threshold) st))
             n_results"
proof -
  let ?kept = "filter (\<lambda>r. js_ge (similarity r) threshold) (map (to_result queryEmbedding) (memories st))"
  have "length (js_sort by_similarity ?kept) \<le> length (memories st)"
    using length_filter_le [of _ "map (to_result queryEmbedding) (memories st)"]
    by (simp add: length_js_sort)
  then have full: "results (search_memory rt query (Some (real (length (memories st)))) (Some threshold) st)
               = js_sort by_similarity ?kept"
    using assms by (simp add: search_memory_results slice0_all)
  have "set (js_sort by_similarity ?kept) =
          {r \<in> to_result queryEmbedding ` set (memories st). js_ge (similarity r) threshold}"
    by (auto simp: set_js_sort)
  then show ?thesis
    using assms full by (simp add: search_memory_success search_memory_results)
qed

theorem search_memory_unvalidated_witness:
  "success (search_memory demo_rt ''cat'' (Some 0) (Some (- 1)) demo_db)
   \<and> set (results (search_memory demo_rt ''cat'' (Some (real (length (memories demo_db)))) (Some (- 1)) demo_db)) =
       {r \<in> to_result [1, 0] ` set (memories demo_db). js_ge (similarity r) (- 1)}
   \<and> results (search_memory demo_rt ''cat'' (Some 0) (Some (- 1)) demo_db) =
       slice0 (results (search_memory demo_rt ''cat'' (Some (real (length (memories demo_db)))) (Some (- 1)) demo_db)) 0"
  using search_memory_unvalidated [OF demo_query, of 0 "- 1" demo_db] .

subsection \<open>The biography\<close>

text \<open>
  Claim C8. When no biography is stored, \<^verbatim>\<open>update_user_bio\<close> answers, for every field
  name and value, with the failure \<^verbatim>\<open>No user biography exists...\<close> and leaves the
  database as it was: no biography is created.
\<close>

theorem update_user_bio_no_biography:
  assumes "bio st = None"
  shows "update_user_bio rt now field val st =
           (Failed ''No user biography exists. Use set_user_bio to create one first.'', st)
         \<and> \<not> success (fst (update_user_bio rt now field val st))
         \<and> bio (snd (update_user_bio rt now field val st)) = None"
  using assms by (simp add: update_user_bio_def)

theorem update_user_bio_no_biography_witness:
  "update_user_bio demo_rt ''2024-10-28T10:00:09.000Z'' ''nombre'' (Some (JStr ''Ana'')) empty_db =
     (Failed ''No user biography exists. Use set_user_bio to create one first.'', empty_db)
   \<and> \<not> success (fst (update_user_bio demo_rt ''2024-10-28T10:00:09.000Z'' ''nombre'' (Some (JStr ''Ana'')) empty_db))
   \<and> bio (snd (update_user_bio demo_rt ''2024-10-28T10:00:09.000Z'' ''nombre'' (Some (JStr ''Ana'')) empty_db)) = None"
  using update_user_bio_no_biography
    [of empty_db demo_rt "''2024-10-28T10:00:09.000Z''" "''nombre''" "Some (JStr ''Ana'')"]
  by (simp add: empty_db_def)

lemma bio_fields_cases:
  "f \<in> set bio_fields \<longleftrightarrow> f \<in> set scalar_fields \<or> f \<in> set array_fields"
  by (simp add: bio_fields_def)

lemma processValue_clear:
  "processValue rt (Some JNull) ev = JNull" "processValue rt (Some (JStr ''null'')) ev = JNull"
  by (simp_all add: processValue_def)

lemma arrayValue_clear:
  "arrayValue rt (Some JNull) ev = None" "arrayValue rt (Some (JStr ''null'')) ev = None"
  by (simp_all add: arrayValue_def)

text \<open>The row a call of \<^verbatim>\<open>set_user_bio\<close> writes when the engine binds the four scalar values.\<close>

lemma set_user_bio_writes:
  assumes "bind_text rt (processValue rt (bioFields ''nombre'') (optional_chain (bio st) nombre)) = Inr n"
    and "bind_text rt (processValue rt (bioFields ''ocupacion'') (optional_chain (bio st) ocupacion)) = Inr oc"
    and "bind_text rt (processValue rt (bioFields ''ubicacion'') (optional_chain (bio st) ubicacion)) = Inr u"
    and "bind_text rt (processValue rt (bioFields ''timezone'') (optional_chain (bio st) timezone)) = Inr t"
  shows "\<exists>created.
    bio (snd (set_user_bio rt now bioFields st)) =
      Some \<lparr>nombre = n, ocupacion = oc, ubicacion = u,
            tecnologias = arrayValue rt (bioFields ''tecnologias'') (optional_chain (bio st) tecnologias),
            herramientas = arrayValue rt (bioFields ''herramientas'') (optional_chain (bio st) herramientas),
            idiomas = arrayValue rt (bioFields ''idiomas'') (optional_chain (bio st) idiomas),
            timezone = t,
            mascotas = arrayValue rt (bioFields ''mascotas'') (optional_chain (bio st) mascotas),
            bio_created_at = created, bio_updated_at = now\<rparr>"
proof (cases "bio st")
  case None
  with assms show ?thesis by (simp add: set_user_bio_def Let_def)
next
  case (Some row)
  with assms show ?thesis by (cases row) (simp add: set_user_bio_def Let_def)
qed

lemma set_user_bio_binds:
  assumes "success (fst (set_user_bio rt now bioFields st))"
  shows "\<exists>n oc u t.
      bind_text rt (processValue rt (bioFields ''nombre'') (optional_chain (bio st) nombre)) = Inr n
    \<and> bind_text rt (processValue rt (bioFields ''ocupacion'') (optional_chain (bio st) ocupacion)) = Inr oc
    \<and> bind_text rt (processValue rt (bioFields ''ubicacion'') (optional_chain (bio st) ubicacion)) = Inr u
    \<and> bind_text rt (processValue rt (bioFields ''timezone'') (optional_chain (bio st) timezone)) = Inr t"
  using assms
  by (cases "bind_text rt (processValue rt (bioFields ''nombre'') (optional_chain (bio st) nombre))";
      cases "bind_text rt (processValue rt (bioFields ''ocupacion'') (optional_chain (bio st) ocupacion))";
      cases "bind_text rt (processValue rt (bioFields ''ubicacion'') (optional_chain (bio st) ubicacion))";
      cases "bind_text rt (processValue rt (bioFields ''timezone'') (optional_chain (bio st) timezone))")
    (simp_all add: set_user_bio_def Let_def)


lemma column_simps:
  "column ''nombre'' = nombre" "column ''ocupacion'' = ocupacion"
  "column ''ubicacion'' = ubicacion" "column ''timezone'' = timezone"
  "column ''tecnologias'' = tecnologias" "column ''herramientas'' = herramientas"
  "column ''idiomas'' = idiomas" "column ''mascotas'' = mascotas"
  by (simp_all add: column_def fun_eq_iff)

lemma stored_after_scalar:
  assumes "success (fst (set_user_bio rt now bioFields st))" and "f \<in> set scalar_fields"
  shows "bind_text rt (processValue rt (bioFields f) (stored f st)) =
           Inr (stored f (snd (set_user_bio rt now bioFields st)))"
proof -
  from set_user_bio_binds [OF assms(1)] obtain n oc u t where
    b: "bind_text rt (processValue rt (bioFields ''nombre'') (optional_chain (bio st) nombre)) = Inr n"
       "bind_text rt (processValue rt (bioFields ''ocupacion'') (optional_chain (bio st) ocupacion)) = Inr oc"
       "bind_text rt (processValue rt (bioFields ''ubicacion'') (optional_chain (bio st) ubicacion)) = Inr u"
       "bind_text rt (processValue rt (bioFields ''timezone'') (optional_chain (bio st) timezone)) = Inr t"
    by blast
  from set_user_bio_writes [OF b, of now] obtain created where
    row: "bio (snd (set_user_bio rt now bioFields st)) =
      Some \<lparr>nombre = n, ocupacion = oc, ubicacion = u,
            tecnologias = arrayValue rt (bioFields ''tecnologias'') (optional_chain (bio st) tecnologias),
            herramientas = arrayValue rt (bioFields ''herramientas'') (optional_chain (bio st) herramientas),
            idiomas = arrayValue rt (bioFields ''idiomas'') (optional_chain (bio st) idiomas),
            timezone = t,
            mascotas = arrayValue rt (bioFields ''mascotas'') (optional_chain (bio st) mascotas),
            bio_created_at = created, bio_updated_at = now\<rparr>"
    by blast
  from assms(2) consider "f = ''nombre''" | "f = ''ocupacion''" | "f = ''ubicacion''" | "f = ''timezone''"
    by (auto simp: scalar_fields_def)
  then show ?thesis
    by cases (simp_all add: stored_def column_simps b row optional_chain_def [of "Some _"])
qed

lemma stored_after_array:
  assumes "success (fst (set_user_bio rt now bioFields st))" and "f \<in> set array_fields"
  shows "stored f (snd (set_user_bio rt now bioFields st)) =
           arrayValue rt (bioFields f) (stored f st)"
proof -
  from set_user_bio_binds [OF assms(1)] obtain n oc u t where
    b: "bind_text rt (processValue rt (bioFields ''nombre'') (optional_chain (bio st) nombre)) = Inr n"
       "bind_text rt (processValue rt (bioFields ''ocupacion'') (optional_chain (bio st) ocupacion)) = Inr oc"
       "bind_text rt (processValue rt (bioFields ''ubicacion'') (optional_chain (bio st) ubicacion)) = Inr u"
       "bind_text rt (processValue rt (bioFields ''timezone'') (optional_chain (bio st) timezone)) = Inr t"
    by blast
  from set_user_bio_writes [OF b, of now] obtain created where
    row: "bio (snd (set_user_bio rt now bioFields st)) =
      Some \<lparr>nombre = n, ocupacion = oc, ubicacion = u,
            tecnologias = arrayValue rt (bioFields ''tecnologias'') (optional_chain (bio st) tecnologias),
            herramientas = arrayValue rt (bioFields ''herramientas'') (optional_chain (bio st) herramientas),
            idiomas = arrayValue rt (bioFields ''idiomas'') (optional_chain (bio st) idiomas),
            timezone = t,
            mascotas = arrayValue rt (bioFields ''mascotas'') (optional_chain (bio st) mascotas),
            bio_created_at = created, bio_updated_at = now\<rparr>"
    by blast
  from assms(2) consider "f = ''tecnologias''" | "f = ''herramientas''" | "f = ''idiomas''" | "f = ''mascotas''"
    by (auto simp: array_fields_def)
  then show ?thesis
    by cases (simp_all add: stored_def column_simps row optional_chain_def [of "Some _"])
qed


lemma set_user_bio_succeeds:
  assumes "bind_text rt (processValue rt (bioFields ''nombre'') (optional_chain (bio st) nombre)) = Inr n"
    and "bind_text rt (processValue rt (bioFields ''ocupacion'') (optional_chain (bio st) ocupacion)) = Inr oc"
    and "bind_text rt (processValue rt (bioFields ''ubicacion'') (optional_chain (bio st) ubicacion)) = Inr u"
    and "bind_text rt (processValue rt (bioFields ''timezone'') (optional_chain (bio st) timezone)) = Inr t"
  shows "success (fst (set_user_bio rt now bioFields st))"
  using assms by (cases "bio st") (simp_all add: set_user_bio_def Let_def)

lemma bind_omitted: "bind_text rt (processValue rt None ev) = Inr (or_null ev)"
  by (simp add: processValue_def bind_text_def split: option.splits)

lemma bind_string:
  "bind_text rt (processValue rt (Some (JStr s)) ev) = Inr (if s = ''null'' then None else Some s)"
  by (simp add: processValue_def bind_text_def)

lemma bind_null: "bind_text rt (processValue rt (Some JNull) ev) = Inr None"
  by (simp add: processValue_def bind_text_def)

lemma set_user_bio_nombre_then_ocupacion:
  "stored ''nombre''
     (snd (set_user_bio rt2 now2 [''ocupacion'' \<mapsto> JStr ''B'']
        (snd (set_user_bio rt1 now1 [''nombre'' \<mapsto> JStr ''A''] st1)))) = Some ''A''
   \<and> stored ''ocupacion''
     (snd (set_user_bio rt2 now2 [''ocupacion'' \<mapsto> JStr ''B'']
        (snd (set_user_bio rt1 now1 [''nombre'' \<mapsto> JStr ''A''] st1)))) = Some ''B''"
proof -
  let ?st2 = "snd (set_user_bio rt1 now1 [''nombre'' \<mapsto> JStr ''A''] st1)"
  have ok1: "success (fst (set_user_bio rt1 now1 [''nombre'' \<mapsto> JStr ''A''] st1))"
    by (rule set_user_bio_succeeds) (simp_all add: bind_omitted bind_string)
  have ok2: "success (fst (set_user_bio rt2 now2 [''ocupacion'' \<mapsto> JStr ''B''] ?st2))"
    by (rule set_user_bio_succeeds) (simp_all add: bind_omitted bind_string)
  have a: "stored ''nombre'' ?st2 = Some ''A''"
    using stored_after_scalar [OF ok1, of "''nombre''"]
    by (simp add: scalar_fields_def bind_string)
  have "stored ''nombre'' (snd (set_user_bio rt2 now2 [''ocupacion'' \<mapsto> JStr ''B''] ?st2)) = Some ''A''"
    using stored_after_scalar [OF ok2, of "''nombre''"] a
    by (simp add: scalar_fields_def bind_omitted or_null_def)
  moreover
  have "stored ''ocupacion'' (snd (set_user_bio rt2 now2 [''ocupacion'' \<mapsto> JStr ''B''] ?st2)) = Some ''B''"
    using stored_after_scalar [OF ok2, of "''ocupacion''"]
    by (simp add: scalar_fields_def bind_string)
  ultimately show ?thesis by simp
qed

text \<open>
  Claim C7, amended. After a successful \<^verbatim>\<open>set_user_bio\<close>, for each of the eight fields:
  a field given as \<^verbatim>\<open>null\<close> or as the string \<^verbatim>\<open>"null"\<close> is absent; a field omitted
  keeps the stored value when that is not the empty string (and is absent when the
  record is created); a string other than \<^verbatim>\<open>"null"\<close> given for a scalar field is stored
  as it is; any other value given for an array field, and an array (the empty one too)
  given for any field, is stored as its JSON text. From any database,
  \<^verbatim>\<open>set_user_bio({nombre: "A"})\<close> and then \<^verbatim>\<open>set_user_bio({ocupacion: "B"})\<close> leave
  \<open>nombre\<close> \<open>A\<close> and \<open>ocupacion\<close> \<open>B\<close>.
\<close>

theorem set_user_bio_fields:
  assumes "f \<in> set bio_fields" and "success (fst (set_user_bio rt now bioFields st))"
  shows "(bioFields f = Some JNull \<or> bioFields f = Some (JStr ''null'') \<longrightarrow>
            stored f (snd (set_user_bio rt now bioFields st)) = None)
       \<and> (bioFields f = None \<and> stored f st \<noteq> Some [] \<longrightarrow>
            stored f (snd (set_user_bio rt now bioFields st)) = stored f st)
       \<and> (\<forall>s. bioFields f = Some (JStr s) \<and> s \<noteq> ''null'' \<and> f \<in> set scalar_fields \<longrightarrow>
            stored f (snd (set_user_bio rt now bioFields st)) = Some s)
       \<and> (\<forall>v. bioFields f = Some v \<and> v \<noteq> JNull \<and> v \<noteq> JStr ''null''
               \<and> (isArray v \<or> f \<in> set array_fields) \<longrightarrow>
            stored f (snd (set_user_bio rt now bioFields st)) = Some (stringify rt v))
       \<and> stored ''nombre''
           (snd (set_user_bio rt2 now2 [''ocupacion'' \<mapsto> JStr ''B'']
              (snd (set_user_bio rt1 now1 [''nombre'' \<mapsto> JStr ''A''] st1)))) = Some ''A''
       \<and> stored ''ocupacion''
           (snd (set_user_bio rt2 now2 [''ocupacion'' \<mapsto> JStr ''B'']
              (snd (set_user_bio rt1 now1 [''nombre'' \<mapsto> JStr ''A''] st1)))) = Some ''B''"
proof -
  let ?new = "stored f (snd (set_user_bio rt now bioFields st))"
  have clear: "?new = None" if "bioFields f = Some JNull \<or> bioFields f = Some (JStr ''null'')"
  proof (cases "f \<in> set scalar_fields")
    case True
    from stored_after_scalar [OF assms(2) True] that show ?thesis
      by (auto simp: processValue_clear bind_text_def)
  next
    case False
    with assms(1) have "f \<in> set array_fields" by (simp add: bio_fields_cases)
    from stored_after_array [OF assms(2) this] that show ?thesis
      by (auto simp: arrayValue_clear)
  qed
  have keep: "?new = stored f st" if "bioFields f = None" and "stored f st \<noteq> Some []"
  proof (cases "f \<in> set scalar_fields")
    case True
    from stored_after_scalar [OF assms(2) True] that show ?thesis
      by (cases "stored f st") (simp_all add: bind_omitted or_null_def)
  next
    case False
    with assms(1) have "f \<in> set array_fields" by (simp add: bio_fields_cases)
    from stored_after_array [OF assms(2) this] that show ?thesis
      by (cases "stored f st") (simp_all add: arrayValue_def or_null_def)
  qed
  have str: "?new = Some s" if "bioFields f = Some (JStr s)" and "s \<noteq> ''null''"
    and "f \<in> set scalar_fields" for s
    using stored_after_scalar [OF assms(2) that(3)] that(1,2) by (simp add: bind_string)
  have arr: "?new = Some (stringify rt v)"
    if v: "bioFields f = Some v" "v \<noteq> JNull" "v \<noteq> JStr ''null''"
      and k: "isArray v \<or> f \<in> set array_fields" for v
  proof (cases "f \<in> set scalar_fields")
    case True
    then have "f \<notin> set array_fields" by (auto simp: scalar_fields_def array_fields_def)
    with k have "isArray v" by simp
    with stored_after_scalar [OF assms(2) True] v show ?thesis
      by (simp add: processValue_def bind_text_def)
  next
    case False
    with assms(1) have "f \<in> set array_fields" by (simp add: bio_fields_cases)
    from stored_after_array [OF assms(2) this] v show ?thesis
      by (simp add: arrayValue_def)
  qed
  from clear keep str arr set_user_bio_nombre_then_ocupacion [of rt2 now2 rt1 now1 st1]
  show ?thesis by blast
qed

text \<open>
  A call whose scalar fields are omitted, \<^verbatim>\<open>null\<close>, strings or arrays succeeds, with the
  message of the branch taken, and leaves a record.
\<close>

lemma bind_text_or_null:
  "text_or_null v \<Longrightarrow> \<exists>b. bind_text rt (processValue rt v ev) = Inr b"
  by (cases v rule: option.exhaust; cases "the v")
    (auto simp: text_or_null_def processValue_def bind_text_def split: option.splits)

lemma set_user_bio_done:
  assumes "bind_text rt (processValue rt (bioFields ''nombre'') (optional_chain (bio st) nombre)) = Inr n"
    and "bind_text rt (processValue rt (bioFields ''ocupacion'') (optional_chain (bio st) ocupacion)) = Inr oc"
    and "bind_text rt (processValue rt (bioFields ''ubicacion'') (optional_chain (bio st) ubicacion)) = Inr u"
    and "bind_text rt (processValue rt (bioFields ''timezone'') (optional_chain (bio st) timezone)) = Inr t"
  shows "fst (set_user_bio rt now bioFields st) =
           Done (if bio st = None then ''User biography created'' else ''User biography updated'')"
  using assms by (cases "bio st") (simp_all add: set_user_bio_def Let_def)

lemma set_user_bio_text_or_null:
  assumes "\<forall>g\<in>set scalar_fields. text_or_null (bioFields g)"
  shows "fst (set_user_bio rt now bioFields st) =
           Done (if bio st = None then ''User biography created'' else ''User biography updated'')"
    and "bio (snd (set_user_bio rt now bioFields st)) \<noteq> None"
proof -
  from assms have t: "text_or_null (bioFields ''nombre'')" "text_or_null (bioFields ''ocupacion'')"
    "text_or_null (bioFields ''ubicacion'')" "text_or_null (bioFields ''timezone'')"
    by (simp_all add: scalar_fields_def)
  from t(1) obtain n
    where n: "bind_text rt (processValue rt (bioFields ''nombre'') (optional_chain (bio st) nombre)) = Inr n"
    using bind_text_or_null by blast
  from t(2) obtain oc
    where oc: "bind_text rt (processValue rt (bioFields ''ocupacion'') (optional_chain (bio st) ocupacion)) = Inr oc"
    using bind_text_or_null by blast
  from t(3) obtain u
    where u: "bind_text rt (processValue rt (bioFields ''ubicacion'') (optional_chain (bio st) ubicacion)) = Inr u"
    using bind_text_or_null by blast
  from t(4) obtain tz
    where tz: "bind_text rt (processValue rt (bioFields ''timezone'') (optional_chain (bio st) timezone)) = Inr tz"
    using bind_text_or_null by blast
  show "fst (set_user_bio rt now bioFields st) =
           Done (if bio st = None then ''User biography created'' else ''User biography updated'')"
    by (rule set_user_bio_done [OF n oc u tz])
  from set_user_bio_writes [OF n oc u tz, of now]
  show "bio (snd (set_user_bio rt now bioFields st)) \<noteq> None" by auto
qed

lemma stored_kept:
  assumes "success (fst (set_user_bio rt now bioFields st))" and "f \<in> set bio_fields"
    and "bioFields f = None" and "stored f st \<noteq> Some []"
  shows "stored f (snd (set_user_bio rt now bioFields st)) = stored f st"
proof (cases "f \<in> set scalar_fields")
  case True
  from stored_after_scalar [OF assms(1) True] assms(3,4) show ?thesis
    by (cases "stored f st") (simp_all add: bind_omitted or_null_def)
next
  case False
  with assms(2) have "f \<in> set array_fields" by (simp add: bio_fields_cases)
  from stored_after_array [OF assms(1) this] assms(3,4) show ?thesis
    by (cases "stored f st") (simp_all add: arrayValue_def or_null_def)
qed

text \<open>
  Claim C10, amended. For each of the eight fields, \<^verbatim>\<open>set_user_bio\<close> with the field given
  as the string \<^verbatim>\<open>"null"\<close> gives the response and the database that the call with the
  field given as \<^verbatim>\<open>null\<close> gives, and a call that succeeds leaves the field absent.
  When every other scalar field is omitted, \<^verbatim>\<open>null\<close>, a string or an array, the call
  does succeed, with the message of the branch taken; a record exists afterwards; the
  field is absent whatever it held; and every other field that is omitted keeps a
  stored value that is not the empty string. So a string \<^verbatim>\<open>"null"\<close> supplied for a field
  is never stored in that field.
\<close>

theorem set_user_bio_null_string:
  assumes "f \<in> set bio_fields"
  shows "set_user_bio rt now (bioFields(f \<mapsto> JStr ''null'')) st =
           set_user_bio rt now (bioFields(f \<mapsto> JNull)) st
       \<and> (success (fst (set_user_bio rt now (bioFields(f \<mapsto> JStr ''null'')) st)) \<longrightarrow>
            stored f (snd (set_user_bio rt now (bioFields(f \<mapsto> JStr ''null'')) st)) = None)
       \<and> ((\<forall>g\<in>set scalar_fields. g \<noteq> f \<longrightarrow> text_or_null (bioFields g)) \<longrightarrow>
            fst (set_user_bio rt now (bioFields(f \<mapsto> JStr ''null'')) st) =
              Done (if bio st = None then ''User biography created'' else ''User biography updated'')
          \<and> bio (snd (set_user_bio rt now (bioFields(f \<mapsto> JStr ''null'')) st)) \<noteq> None
          \<and> stored f (snd (set_user_bio rt now (bioFields(f \<mapsto> JStr ''null'')) st)) = None
          \<and> (\<forall>g\<in>set bio_fields. g \<noteq> f \<and> bioFields g = None \<and> stored g st \<noteq> Some [] \<longrightarrow>
                stored g (snd (set_user_bio rt now (bioFields(f \<mapsto> JStr ''null'')) st)) =
                  stored g st))"
proof -
  let ?args = "bioFields(f \<mapsto> JStr ''null'')"
  let ?X = "set_user_bio rt now ?args st"
  have same: "?X = set_user_bio rt now (bioFields(f \<mapsto> JNull)) st"
  proof (cases "f \<in> set scalar_fields")
    case True
    then consider "f = ''nombre''" | "f = ''ocupacion''" | "f = ''ubicacion''" | "f = ''timezone''"
      by (auto simp: scalar_fields_def)
    then show ?thesis
      by cases (simp_all add: set_user_bio_def processValue_clear)
  next
    case False
    with assms have "f \<in> set array_fields" by (simp add: bio_fields_cases)
    then consider "f = ''tecnologias''" | "f = ''herramientas''" | "f = ''idiomas''" | "f = ''mascotas''"
      by (auto simp: array_fields_def)
    then show ?thesis
      by cases (simp_all add: set_user_bio_def arrayValue_clear)
  qed
  have cleared: "stored f (snd ?X) = None" if ok: "success (fst ?X)"
  proof (cases "f \<in> set scalar_fields")
    case True
    from stored_after_scalar [OF ok True] show ?thesis
      by (simp add: processValue_clear bind_text_def)
  next
    case False
    with assms have arr: "f \<in> set array_fields" by (simp add: bio_fields_cases)
    from stored_after_array [OF ok arr] show ?thesis
      by (simp add: arrayValue_clear)
  qed
  have rest: "fst ?X = Done (if bio st = None then ''User biography created''
                             else ''User biography updated'')
          \<and> bio (snd ?X) \<noteq> None \<and> stored f (snd ?X) = None
          \<and> (\<forall>g\<in>set bio_fields. g \<noteq> f \<and> bioFields g = None \<and> stored g st \<noteq> Some [] \<longrightarrow>
                stored g (snd ?X) = stored g st)"
    if others: "\<forall>g\<in>set scalar_fields. g \<noteq> f \<longrightarrow> text_or_null (bioFields g)"
  proof -
    have "\<forall>g\<in>set scalar_fields. text_or_null (?args g)"
      using others by (simp add: text_or_null_def)
    note res = set_user_bio_text_or_null
      [where bioFields = ?args and rt = rt and now = now and st = st, OF this]
    from res(1) have ok: "success (fst ?X)" by simp
    have "stored g (snd ?X) = stored g st"
      if "g \<in> set bio_fields" "g \<noteq> f" "bioFields g = None" "stored g st \<noteq> Some []" for g
      using stored_kept [OF ok that(1)] that(2,3,4) by simp
    with res cleared [OF ok] show ?thesis by blast
  qed
  from same cleared rest show ?thesis by blast
qed

lemma demo_bio_row:
  "bio demo_bio_db =
     Some \<lparr>nombre = Some ''Ana'', ocupacion = Some ''dev'', ubicacion = None, tecnologias = None,
           herramientas = None,
           idiomas = Some [CHR ''['', CHR 0x22, CHR ''e'', CHR ''s'', CHR 0x22, CHR '']''],
           timezone = None, mascotas = None,
           bio_created_at = ''2024-10-28T10:00:01.000Z'',
           bio_updated_at = ''2024-10-28T10:00:01.000Z''\<rparr>"
  by (simp add: demo_bio_db_def set_user_bio_def empty_db_def demo_rt_def processValue_def
      arrayValue_def bind_text_def optional_chain_def or_null_def)

lemma demo_bio_stored:
  "stored ''nombre'' demo_bio_db = Some ''Ana''" "stored ''ocupacion'' demo_bio_db = Some ''dev''"
  "stored ''ubicacion'' demo_bio_db = None" "stored ''tecnologias'' demo_bio_db = None"
  by (simp_all add: stored_def column_simps demo_bio_row optional_chain_def)

lemma demo_bio_succeeds:
  "success (fst (set_user_bio demo_rt ''2024-10-28T10:00:02.000Z''
      [''nombre'' \<mapsto> JNull, ''ubicacion'' \<mapsto> JStr ''Santiago'', ''tecnologias'' \<mapsto> JArr []]
      demo_bio_db))"
  "success (fst (set_user_bio demo_rt ''2024-10-28T10:00:02.000Z'' [''nombre'' \<mapsto> JStr ''null''] demo_bio_db))"
  "success (fst (set_user_bio demo_rt ''2024-10-28T10:00:02.000Z'' [''ocupacion'' \<mapsto> JStr ''null''] demo_bio_db))"
  by (rule set_user_bio_succeeds; simp add: bind_omitted bind_string bind_null)+

theorem set_user_bio_fields_witness:
  "stored ''nombre''
     (snd (set_user_bio demo_rt ''2024-10-28T10:00:02.000Z''
        [''nombre'' \<mapsto> JNull, ''ubicacion'' \<mapsto> JStr ''Santiago'', ''tecnologias'' \<mapsto> JArr []]
        demo_bio_db)) = None
   \<and> stored ''ocupacion''
     (snd (set_user_bio demo_rt ''2024-10-28T10:00:02.000Z''
        [''nombre'' \<mapsto> JNull, ''ubicacion'' \<mapsto> JStr ''Santiago'', ''tecnologias'' \<mapsto> JArr []]
        demo_bio_db)) = Some ''dev''
   \<and> stored ''ubicacion''
     (snd (set_user_bio demo_rt ''2024-10-28T10:00:02.000Z''
        [''nombre'' \<mapsto> JNull, ''ubicacion'' \<mapsto> JStr ''Santiago'', ''tecnologias'' \<mapsto> JArr []]
        demo_bio_db)) = Some ''Santiago''
   \<and> stored ''tecnologias''
     (snd (set_user_bio demo_rt ''2024-10-28T10:00:02.000Z''
        [''nombre'' \<mapsto> JNull, ''ubicacion'' \<mapsto> JStr ''Santiago'', ''tecnologias'' \<mapsto> JArr []]
        demo_bio_db)) = Some ''[]''
   \<and> stored ''nombre''
     (snd (set_user_bio demo_rt ''2024-10-28T10:00:02.000Z'' [''ocupacion'' \<mapsto> JStr ''B'']
        (snd (set_user_bio demo_rt ''2024-10-28T10:00:01.000Z'' [''nombre'' \<mapsto> JStr ''A''] empty_db))))
       = Some ''A''
   \<and> stored ''ocupacion''
     (snd (set_user_bio demo_rt ''2024-10-28T10:00:02.000Z'' [''ocupacion'' \<mapsto> JStr ''B'']
        (snd (set_user_bio demo_rt ''2024-10-28T10:00:01.000Z'' [''nombre'' \<mapsto> JStr ''A''] empty_db))))
       = Some ''B''"
proof -
  let ?args = "[''nombre'' \<mapsto> JNull, ''ubicacion'' \<mapsto> JStr ''Santiago'', ''tecnologias'' \<mapsto> JArr []]"
  note rule = set_user_bio_fields [OF _ demo_bio_succeeds(1),
      of _ demo_rt "''2024-10-28T10:00:02.000Z''" demo_rt "''2024-10-28T10:00:01.000Z''" empty_db]
  have fields: "''nombre'' \<in> set bio_fields" "''ocupacion'' \<in> set bio_fields"
    "''ubicacion'' \<in> set bio_fields" "''tecnologias'' \<in> set bio_fields"
    by (simp_all add: bio_fields_def scalar_fields_def array_fields_def)
  have "''ubicacion'' \<in> set scalar_fields" "stringify demo_rt (JArr []) = ''[]''"
    by (simp_all add: scalar_fields_def demo_rt_def)
  with rule [OF fields(1)] rule [OF fields(2)] rule [OF fields(3)] rule [OF fields(4)]
  show ?thesis by (simp add: demo_bio_stored)
qed

theorem set_user_bio_null_string_witness:
  "stored ''nombre'' demo_bio_db = Some ''Ana''
   \<and> stored ''ocupacion'' demo_bio_db = Some ''dev''
   \<and> set_user_bio demo_rt ''2024-10-28T10:00:02.000Z'' [''nombre'' \<mapsto> JStr ''null''] demo_bio_db =
       set_user_bio demo_rt ''2024-10-28T10:00:02.000Z'' [''nombre'' \<mapsto> JNull] demo_bio_db
   \<and> fst (set_user_bio demo_rt ''2024-10-28T10:00:02.000Z'' [''nombre'' \<mapsto> JStr ''null''] demo_bio_db) =
       Done ''User biography updated''
   \<and> bio (snd (set_user_bio demo_rt ''2024-10-28T10:00:02.000Z'' [''nombre'' \<mapsto> JStr ''null''] demo_bio_db))
       \<noteq> None
   \<and> stored ''nombre''
       (snd (set_user_bio demo_rt ''2024-10-28T10:00:02.000Z'' [''nombre'' \<mapsto> JStr ''null''] demo_bio_db))
       = None
   \<and> stored ''ocupacion''
       (snd (set_user_bio demo_rt ''2024-10-28T10:00:02.000Z'' [''nombre'' \<mapsto> JStr ''null''] demo_bio_db))
       = Some ''dev''"
proof -
  have f: "''nombre'' \<in> set bio_fields" "''ocupacion'' \<in> set bio_fields"
    by (simp_all add: bio_fields_def scalar_fields_def)
  have others: "\<forall>g\<in>set scalar_fields. g \<noteq> ''nombre'' \<longrightarrow> text_or_null (Map.empty g)"
    by (simp add: text_or_null_def)
  have "bio demo_bio_db \<noteq> None" by (simp add: demo_bio_row)
  with set_user_bio_null_string [OF f(1), of demo_rt "''2024-10-28T10:00:02.000Z''" Map.empty demo_bio_db]
    others f(2) demo_bio_stored(1,2)
  show ?thesis by auto
qed

text \<open>
  Claim C10, as stated, fails in its conclusion: the string \<^verbatim>\<open>"null"\<close> can be stored in
  a field by \<^verbatim>\<open>set_user_bio\<close>. An array field stores the JSON text of what it is given,
  and the JSON text of a number that is not finite (the literal \<^verbatim>\<open>1e999\<close>) is \<^verbatim>\<open>null\<close>;
  and a field that holds \<^verbatim>\<open>"null"\<close>, written by \<^verbatim>\<open>update_user_bio\<close>, keeps it when it is
  omitted.
\<close>

theorem set_user_bio_stores_null_counterexample:
  "stored ''tecnologias''
     (snd (set_user_bio demo_rt ''2024-10-28T10:00:02.000Z'' [''tecnologias'' \<mapsto> JNum PInf] empty_db))
     = Some ''null''
   \<and> stored ''timezone'' demo_bio_null_db = Some ''null''
   \<and> stored ''timezone''
       (snd (set_user_bio demo_rt ''2024-10-28T10:00:03.000Z'' [''ocupacion'' \<mapsto> JStr ''x'']
          demo_bio_null_db))
       = Some ''null''"
proof -
  have none: "\<forall>g\<in>set scalar_fields. text_or_null ([''tecnologias'' \<mapsto> JNum PInf] g)"
    by (simp add: scalar_fields_def text_or_null_def)
  have ok1: "success (fst (set_user_bio demo_rt ''2024-10-28T10:00:02.000Z''
                [''tecnologias'' \<mapsto> JNum PInf] empty_db))"
    using set_user_bio_text_or_null(1)
      [where bioFields = "[''tecnologias'' \<mapsto> JNum PInf]", OF none] by simp
  have a: "stored ''tecnologias''
     (snd (set_user_bio demo_rt ''2024-10-28T10:00:02.000Z'' [''tecnologias'' \<mapsto> JNum PInf] empty_db))
     = Some ''null''"
    using stored_after_array [OF ok1, of "''tecnologias''"]
    by (simp add: array_fields_def arrayValue_def demo_rt_def)
  have row: "bio demo_bio_null_db =
     Some \<lparr>nombre = Some ''Ana'', ocupacion = Some ''dev'', ubicacion = None, tecnologias = None,
           herramientas = None,
           idiomas = Some [CHR ''['', CHR 0x22, CHR ''e'', CHR ''s'', CHR 0x22, CHR '']''],
           timezone = Some ''null'', mascotas = None,
           bio_created_at = ''2024-10-28T10:00:01.000Z'',
           bio_updated_at = ''2024-10-28T10:00:02.000Z''\<rparr>"
    by (simp add: demo_bio_null_db_def update_user_bio_def demo_bio_row demo_rt_def
        demo_run_update_def bio_fields_def scalar_fields_def array_fields_def set_column_def)
  then have b: "stored ''timezone'' demo_bio_null_db = Some ''null''"
    by (simp add: stored_def column_simps optional_chain_def)
  have strs: "\<forall>g\<in>set scalar_fields. text_or_null ([''ocupacion'' \<mapsto> JStr ''x''] g)"
    by (simp add: scalar_fields_def text_or_null_def)
  have ok2: "success (fst (set_user_bio demo_rt ''2024-10-28T10:00:03.000Z''
                [''ocupacion'' \<mapsto> JStr ''x''] demo_bio_null_db))"
    using set_user_bio_text_or_null(1)
      [where bioFields = "[''ocupacion'' \<mapsto> JStr ''x'']", OF strs] by simp
  have "''timezone'' \<in> set bio_fields" by (simp add: bio_fields_def scalar_fields_def)
  from stored_kept [OF ok2 this] b
  have "stored ''timezone''
       (snd (set_user_bio demo_rt ''2024-10-28T10:00:03.000Z'' [''ocupacion'' \<mapsto> JStr ''x'']
          demo_bio_null_db)) = Some ''null''"
    by simp
  with a b show ?thesis by simp
qed

text \<open>
  Claim C7, as stated, fails: a supplied value other than \<^verbatim>\<open>null\<close> does not always
  replace the stored one. The string \<^verbatim>\<open>"null"\<close> given for \<open>ocupacion\<close> is not stored.
\<close>

theorem set_user_bio_replace_counterexample:
  "stored ''ocupacion'' demo_bio_db = Some ''dev''
   \<and> success (fst (set_user_bio demo_rt ''2024-10-28T10:00:02.000Z'' [''ocupacion'' \<mapsto> JStr ''null''] demo_bio_db))
   \<and> stored ''ocupacion''
       (snd (set_user_bio demo_rt ''2024-10-28T10:00:02.000Z'' [''ocupacion'' \<mapsto> JStr ''null''] demo_bio_db))
       \<noteq> Some ''null''"
  using stored_after_scalar [OF demo_bio_succeeds(3), of "''ocupacion''"]
  by (simp add: demo_bio_stored demo_bio_succeeds(3) scalar_fields_def bind_string)

text \<open>
  An omitted field does not keep a stored empty string: \<^verbatim>\<open>existingValue || null\<close>
  turns it into NULL.
\<close>

lemma set_user_bio_forgets_empty_string:
  "stored ''nombre'' (snd (set_user_bio rt now1 [''nombre'' \<mapsto> JStr []] st)) = Some []
   \<and> stored ''nombre''
       (snd (set_user_bio rt now2 [''ocupacion'' \<mapsto> JStr ''B'']
          (snd (set_user_bio rt now1 [''nombre'' \<mapsto> JStr []] st)))) = None"
proof -
  let ?st1 = "snd (set_user_bio rt now1 [''nombre'' \<mapsto> JStr []] st)"
  have ok1: "success (fst (set_user_bio rt now1 [''nombre'' \<mapsto> JStr []] st))"
    by (rule set_user_bio_succeeds) (simp_all add: bind_omitted bind_string)
  have ok2: "success (fst (set_user_bio rt now2 [''ocupacion'' \<mapsto> JStr ''B''] ?st1))"
    by (rule set_user_bio_succeeds) (simp_all add: bind_omitted bind_string)
  have a: "stored ''nombre'' ?st1 = Some []"
    using stored_after_scalar [OF ok1, of "''nombre''"]
    by (simp add: scalar_fields_def bind_string)
  then show ?thesis
    using stored_after_scalar [OF ok2, of "''nombre''"]
    by (simp add: scalar_fields_def bind_omitted or_null_def)
qed

end
